theory Spec2Isabelle
  imports Main "HOL-Library.AList" "HOL-Library.Char_ord" "HOL-Library.List_Lexorder"
begin

section \<open>Strings\<close>

text \<open>
  A JavaScript string is modelled as a \<^typ>\<open>string\<close> holding its UTF-8 bytes. The
  operations below are the ones the sources use: template concatenation, \<^verbatim>\<open>includes\<close>,
  the byte-lowercasing that the Fetch standard applies to header names, and the decimal
  rendering of a non-negative integer.
\<close>

definition ascii_lower :: "char \<Rightarrow> char" where
  "ascii_lower c =
     (case map_of (zip ''ABCDEFGHIJKLMNOPQRSTUVWXYZ'' ''abcdefghijklmnopqrstuvwxyz'') c of
        None \<Rightarrow> c
      | Some d \<Rightarrow> d)"

definition toLowerCase :: "string \<Rightarrow> string" where
  "toLowerCase s = map ascii_lower s"

fun startsWith :: "string \<Rightarrow> string \<Rightarrow> bool" where
  "startsWith s [] = True"
| "startsWith [] (p # ps) = False"
| "startsWith (c # cs) (p # ps) = (c = p \<and> startsWith cs ps)"

fun string_includes :: "string \<Rightarrow> string \<Rightarrow> bool" where
  "string_includes [] sub = (sub = [])"
| "string_includes (c # cs) sub = (startsWith (c # cs) sub \<or> string_includes cs sub)"

fun join :: "string \<Rightarrow> string list \<Rightarrow> string" where
  "join sep [] = []"
| "join sep [x] = x"
| "join sep (x # y # ys) = x @ sep @ join sep (y # ys)"

definition digit :: "nat \<Rightarrow> char" where
  "digit d = ''0123456789'' ! d"

function show_nat :: "nat \<Rightarrow> string" where
  "show_nat n = (if n < 10 then [digit n] else show_nat (n div 10) @ [digit (n mod 10)])"
  by pat_completeness auto
termination
  by (relation "measure id") auto

declare show_nat.simps [simp del]

section \<open>Values\<close>

text \<open>
  A Number is kept as the three observations this code base makes of one: whether it is
  falsy (zero or NaN), whether it is finite, and the text that the language's
  number-to-string conversion gives for it.
\<close>

datatype jsnumber = Number (number_falsy: bool) (number_finite: bool) (number_text: string)

text \<open>
  \<open>json\<close> is the range of \<^verbatim>\<open>JSON.parse\<close>. An object is the list of its own properties in
  enumeration order; the parser leaves every key at most once in it.
\<close>

datatype json =
    JNull
  | JBoolean bool
  | JNumber jsnumber
  | JString string
  | JArray "json list"
  | JObject "(string \<times> json) list"

text \<open>
  The faults that the platform raises on the paths modelled here. Each is an instance of
  \<^verbatim>\<open>Error\<close> (a \<^verbatim>\<open>TypeError\<close>, \<^verbatim>\<open>SyntaxError\<close> or \<^verbatim>\<open>RangeError\<close>) whose message
  text is chosen by the engine.
\<close>

datatype fault =
    Body_unusable
  | Body_read_failed
  | Invalid_json
  | Status_out_of_range
  | Null_body_status_with_body
  | Cannot_convert_to_primitive
  | Cannot_serialize_bigint
  | Circular_structure

text \<open>Truthiness of a value that may be absent (\<^verbatim>\<open>undefined\<close> is \<open>None\<close>).\<close>

fun truthy :: "json option \<Rightarrow> bool" where
  "truthy None = False"
| "truthy (Some JNull) = False"
| "truthy (Some (JBoolean b)) = b"
| "truthy (Some (JNumber n)) = (\<not> number_falsy n)"
| "truthy (Some (JString s)) = (s \<noteq> [])"
| "truthy (Some (JArray xs)) = True"
| "truthy (Some (JObject ps)) = True"

text \<open>
  \<^verbatim>\<open>json?.name\<close>: reading a property through optional chaining. Only an object has the
  properties its text spelled out; on \<^verbatim>\<open>null\<close>, on a primitive and on an array the names
  read here (\<^verbatim>\<open>detail\<close>, \<^verbatim>\<open>message\<close>) are \<^verbatim>\<open>undefined\<close>.
\<close>

fun get_property :: "json \<Rightarrow> string \<Rightarrow> json option" where
  "get_property (JObject ps) name = map_of ps name"
| "get_property j name = None"

text \<open>
  The language's string conversion, which the \<^verbatim>\<open>Error\<close> constructor applies to its
  \<open>message\<close> argument. An array is joined with commas, a \<^verbatim>\<open>null\<close> element giving the
  empty text. An object reaches \<^verbatim>\<open>Object.prototype.toString\<close> and gives
  \<^verbatim>\<open>[object Object]\<close>, unless it has an own property called \<^verbatim>\<open>toString\<close>: a parsed value
  is never callable, the conversion then falls through to \<^verbatim>\<open>valueOf\<close>, which does not
  give a primitive either, and a \<^verbatim>\<open>TypeError\<close> is raised.
\<close>

fun ToString :: "json \<Rightarrow> fault + string"
  and join_elements :: "json list \<Rightarrow> fault + string" where
  "ToString JNull = Inr ''null''"
| "ToString (JBoolean b) = Inr (if b then ''true'' else ''false'')"
| "ToString (JNumber n) = Inr (number_text n)"
| "ToString (JString s) = Inr s"
| "ToString (JArray xs) = join_elements xs"
| "ToString (JObject ps) =
     (if ''toString'' \<in> set (map fst ps) then Inl Cannot_convert_to_primitive
      else Inr ''[object Object]'')"
| "join_elements [] = Inr []"
| "join_elements [x] = (if x = JNull then Inr [] else ToString x)"
| "join_elements (x # y # ys) =
     (case (if x = JNull then Inr [] else ToString x) of
        Inl f \<Rightarrow> Inl f
      | Inr s \<Rightarrow>
          (case join_elements (y # ys) of
             Inl f \<Rightarrow> Inl f
           | Inr t \<Rightarrow> Inr (s @ '','' @ t)))"

section \<open>Headers\<close>

text \<open>
  A \<^verbatim>\<open>Headers\<close> object is its header list: names with values, in the order they were
  appended. As in the Fetch standard, a name matches a header when the two are equal
  up to the case of ASCII letters. Names and values are taken to be valid header text.
\<close>

type_synonym headers = "(string \<times> string) list"

definition same_name :: "string \<Rightarrow> string \<Rightarrow> bool" where
  "same_name a b = (toLowerCase a = toLowerCase b)"

definition header_values :: "headers \<Rightarrow> string \<Rightarrow> string list" where
  "header_values h name = map snd (filter (\<lambda>e. same_name (fst e) name) h)"

definition Headers_has :: "headers \<Rightarrow> string \<Rightarrow> bool" where
  "Headers_has h name = (header_values h name \<noteq> [])"

definition Headers_get :: "headers \<Rightarrow> string \<Rightarrow> string option" where
  "Headers_get h name =
     (if header_values h name = [] then None else Some (join '', '' (header_values h name)))"

definition Headers_append :: "headers \<Rightarrow> string \<Rightarrow> string \<Rightarrow> headers" where
  "Headers_append h name v = h @ [(name, v)]"


text \<open>
  \<^verbatim>\<open>set\<close>: the first header of that name takes the value and the others are removed; a
  name the list does not have is appended.
\<close>

fun replace_first :: "string \<Rightarrow> string \<Rightarrow> headers \<Rightarrow> headers" where
  "replace_first name v [] = []"
| "replace_first name v (e # es) =
     (if same_name (fst e) name then (fst e, v) # filter (\<lambda>e. \<not> same_name (fst e) name) es
      else e # replace_first name v es)"

definition Headers_set :: "headers \<Rightarrow> string \<Rightarrow> string \<Rightarrow> headers" where
  "Headers_set h name v =
     (if Headers_has h name then replace_first name v h else Headers_append h name v)"

section \<open>Responses\<close>

text \<open>
  A response as \<^verbatim>\<open>fetch\<close> hands it over. The body is absent (\<^verbatim>\<open>null\<close>) or a stream that
  either delivers its bytes or fails while being read. Reading is an effect on the
  response: it marks the body as used, and a body that is used cannot be read again.
\<close>

datatype body_stream = Stream string | Broken_stream

record response =
  res_status :: nat
  res_statusText :: string
  res_headers :: headers
  res_body :: "body_stream option"
  res_bodyUsed :: bool

definition res_ok :: "response \<Rightarrow> bool" where
  "res_ok res = (200 \<le> res_status res \<and> res_status res \<le> 299)"

definition Response_text :: "response \<Rightarrow> (fault + string) \<times> response" where
  "Response_text res =
     (case res_body res of
        None \<Rightarrow> (Inr [], res)
      | Some b \<Rightarrow>
          if res_bodyUsed res then (Inl Body_unusable, res)
          else (case b of
                  Stream bytes \<Rightarrow> (Inr bytes, res\<lparr>res_bodyUsed := True\<rparr>)
                | Broken_stream \<Rightarrow> (Inl Body_read_failed, res\<lparr>res_bodyUsed := True\<rparr>)))"

text \<open>
  \<^verbatim>\<open>res.json()\<close> reads the body the same way and hands the text to \<^verbatim>\<open>JSON.parse\<close>, which
  is a parameter here: \<open>parse text\<close> is the parsed value, or \<open>None\<close> where the text is not
  JSON.
\<close>

definition Response_json ::
  "(string \<Rightarrow> json option) \<Rightarrow> response \<Rightarrow> (fault + json) \<times> response" where
  "Response_json parse res =
     (case Response_text res of
        (Inl f, res') \<Rightarrow> (Inl f, res')
      | (Inr text, res') \<Rightarrow>
          (case parse text of
             None \<Rightarrow> (Inl Invalid_json, res')
           | Some j \<Rightarrow> (Inr j, res')))"

section \<open>errors.ts\<close>

text \<open>
  \<^verbatim>\<open>ApiError\<close>: the fields the constructor assigns (\<^verbatim>\<open>code\<close> is declared and never
  assigned). \<open>details\<close> is \<open>None\<close> for \<^verbatim>\<open>undefined\<close>. The constructor passes \<open>message\<close> to
  \<^verbatim>\<open>Error\<close>, which converts it to a string; at run time the argument is whatever value
  the caller holds, so the conversion is part of the constructor.
\<close>

record ApiError =
  message :: string
  status :: nat
  details :: "json option"

definition new_ApiError :: "json \<Rightarrow> nat \<Rightarrow> json option \<Rightarrow> fault + ApiError" where
  "new_ApiError msg st det =
     (case ToString msg of
        Inl f \<Rightarrow> Inl f
      | Inr m \<Rightarrow> Inr \<lparr>message = m, status = st, details = det\<rparr>)"

definition default_message :: "response \<Rightarrow> string" where
  "default_message res = ''API '' @ show_nat (res_status res) @ '': '' @ res_statusText res"

definition content_type :: "response \<Rightarrow> string" where
  "content_type res =
     (case Headers_get (res_headers res) ''content-type'' of
        None \<Rightarrow> []
      | Some v \<Rightarrow> v)"

text \<open>\<^verbatim>\<open>json?.detail || json?.message || message\<close>\<close>

definition choose_message :: "json \<Rightarrow> string \<Rightarrow> json" where
  "choose_message j dflt =
     (if truthy (get_property j ''detail'') then the (get_property j ''detail'')
      else if truthy (get_property j ''message'') then the (get_property j ''message'')
      else JString dflt)"

text \<open>
  \<^verbatim>\<open>ApiError.fromResponse\<close>. The \<^verbatim>\<open>try\<close> block covers reading the body; the constructor
  call comes after it. The result is the error built, or the fault that escapes.
\<close>

definition fromResponse :: "(string \<Rightarrow> json option) \<Rightarrow> response \<Rightarrow> fault + ApiError" where
  "fromResponse parse res =
     (let dflt = default_message res;
          (message, details) =
            (if string_includes (content_type res) ''application/json''
             then (case fst (Response_json parse res) of
                     Inl f \<Rightarrow> (JString dflt, None)
                   | Inr j \<Rightarrow> (choose_message j dflt, Some j))
             else (case fst (Response_text res) of
                     Inl f \<Rightarrow> (JString dflt, None)
                   | Inr text \<Rightarrow>
                       (JString (if text = [] then dflt else text), Some (JString text))))
      in new_ApiError message (res_status res) details)"

text \<open>
  \<^verbatim>\<open>handleApiError\<close> takes any value at all. \<open>jsval\<close> is the part of the language's values
  the classifier can tell apart: the primitives, functions, arrays and plain objects. An
  object is the list of the properties that \<^verbatim>\<open>in\<close> sees and \<^verbatim>\<open>JSON.stringify\<close>
  enumerates, in enumeration order. \<open>VCycle\<close> stands, inside an object or array, for a
  reference back to an object or array that encloses it, which is how a circular
  structure is written down as a finite value. The properties are plain data; objects
  with accessors, proxies and objects with a callable \<^verbatim>\<open>toJSON\<close> are given further
  down, by what their operations do.
\<close>

datatype jsval =
    VUndefined
  | VNull
  | VBoolean bool
  | VNumber jsnumber
  | VBigInt int
  | VString string
  | VSymbol
  | VFunction
  | VArray "jsval list"
  | VObject "(string \<times> jsval) list"
  | VCycle

fun typeof :: "jsval \<Rightarrow> string" where
  "typeof VUndefined = ''undefined''"
| "typeof VNull = ''object''"
| "typeof (VBoolean b) = ''boolean''"
| "typeof (VNumber n) = ''number''"
| "typeof (VBigInt i) = ''bigint''"
| "typeof (VString s) = ''string''"
| "typeof VSymbol = ''symbol''"
| "typeof VFunction = ''function''"
| "typeof (VArray xs) = ''object''"
| "typeof (VObject ps) = ''object''"
| "typeof VCycle = ''object''"

fun truthy_value :: "jsval \<Rightarrow> bool" where
  "truthy_value VUndefined = False"
| "truthy_value VNull = False"
| "truthy_value (VBoolean b) = b"
| "truthy_value (VNumber n) = (\<not> number_falsy n)"
| "truthy_value (VBigInt i) = (i \<noteq> 0)"
| "truthy_value (VString s) = (s \<noteq> [])"
| "truthy_value v = True"

text \<open>\<^verbatim>\<open>name in value\<close> and \<^verbatim>\<open>value.name\<close>, for a value that is an object.\<close>

fun has_property :: "jsval \<Rightarrow> string \<Rightarrow> bool" where
  "has_property (VObject ps) name = (name \<in> set (map fst ps))"
| "has_property v name = False"

fun read_property :: "jsval \<Rightarrow> string \<Rightarrow> jsval" where
  "read_property (VObject ps) name =
     (case map_of ps name of None \<Rightarrow> VUndefined | Some v \<Rightarrow> v)"
| "read_property v name = VUndefined"

text \<open>
  \<^verbatim>\<open>JSON.stringify\<close> with one argument. The result is a text, or \<^verbatim>\<open>undefined\<close> (\<open>None\<close>)
  for a value that has no JSON form at the top level, or a \<^verbatim>\<open>TypeError\<close> for a BigInt and
  for a circular structure. Inside an array a value without JSON form is written
  \<^verbatim>\<open>null\<close>; inside an object its property is left out.
\<close>

definition hex_digit :: "nat \<Rightarrow> char" where
  "hex_digit d = ''0123456789abcdef'' ! d"

definition quote_char :: "char \<Rightarrow> string" where
  "quote_char c =
     (if c = CHR 0x22 then [CHR 0x5C, CHR 0x22]
      else if c = CHR 0x5C then [CHR 0x5C, CHR 0x5C]
      else if c = CHR 0x08 then [CHR 0x5C, CHR ''b'']
      else if c = CHR 0x0C then [CHR 0x5C, CHR ''f'']
      else if c = CHR 0x0A then [CHR 0x5C, CHR ''n'']
      else if c = CHR 0x0D then [CHR 0x5C, CHR ''r'']
      else if c = CHR 0x09 then [CHR 0x5C, CHR ''t'']
      else if (of_char c :: nat) < 32
      then [CHR 0x5C, CHR ''u'', CHR ''0'', CHR ''0'',
            hex_digit ((of_char c :: nat) div 16), hex_digit ((of_char c :: nat) mod 16)]
      else [c])"

definition quote :: "string \<Rightarrow> string" where
  "quote s = [CHR 0x22] @ concat (map quote_char s) @ [CHR 0x22]"

fun JSON_stringify :: "jsval \<Rightarrow> fault + string option"
  and stringify_elements :: "jsval list \<Rightarrow> fault + string list"
  and stringify_properties :: "(string \<times> jsval) list \<Rightarrow> fault + string list" where
  "JSON_stringify VUndefined = Inr None"
| "JSON_stringify VNull = Inr (Some ''null'')"
| "JSON_stringify (VBoolean b) = Inr (Some (if b then ''true'' else ''false''))"
| "JSON_stringify (VNumber n) =
     Inr (Some (if number_finite n then number_text n else ''null''))"
| "JSON_stringify (VBigInt i) = Inl Cannot_serialize_bigint"
| "JSON_stringify (VString s) = Inr (Some (quote s))"
| "JSON_stringify VSymbol = Inr None"
| "JSON_stringify VFunction = Inr None"
| "JSON_stringify (VArray xs) =
     (case stringify_elements xs of
        Inl f \<Rightarrow> Inl f
      | Inr texts \<Rightarrow> Inr (Some (''['' @ join '','' texts @ '']'')))"
| "JSON_stringify (VObject ps) =
     (case stringify_properties ps of
        Inl f \<Rightarrow> Inl f
      | Inr texts \<Rightarrow> Inr (Some (''{'' @ join '','' texts @ ''}'')))"
| "JSON_stringify VCycle = Inl Circular_structure"
| "stringify_elements [] = Inr []"
| "stringify_elements (x # xs) =
     (case JSON_stringify x of
        Inl f \<Rightarrow> Inl f
      | Inr r \<Rightarrow>
          (case stringify_elements xs of
             Inl f \<Rightarrow> Inl f
           | Inr texts \<Rightarrow> Inr ((case r of None \<Rightarrow> ''null'' | Some t \<Rightarrow> t) # texts)))"
| "stringify_properties [] = Inr []"
| "stringify_properties (p # ps) =
     (case JSON_stringify (snd p) of
        Inl f \<Rightarrow> Inl f
      | Inr r \<Rightarrow>
          (case stringify_properties ps of
             Inl f \<Rightarrow> Inl f
           | Inr texts \<Rightarrow>
               Inr (case r of
                      None \<Rightarrow> texts
                    | Some t \<Rightarrow> (quote (fst p) @ '':'' @ t) # texts)))"

text \<open>
  What a \<^verbatim>\<open>throw\<close> or a rejected promise can carry: an \<^verbatim>\<open>ApiError\<close>, a fault of the
  platform, another instance of \<^verbatim>\<open>Error\<close> with its message, or any other value.
\<close>

datatype thrown =
    Thrown_ApiError ApiError
  | Thrown_fault fault
  | Thrown_Error string
  | Thrown_value jsval

text \<open>The fallback text of the classifier, the Russian word for "error", in UTF-8.\<close>

definition fallback_text :: string where
  "fallback_text =
     [CHR 0xD0, CHR 0x9E, CHR 0xD1, CHR 0x88, CHR 0xD0, CHR 0xB8,
      CHR 0xD0, CHR 0xB1, CHR 0xD0, CHR 0xBA, CHR 0xD0, CHR 0xB0]"

text \<open>
  \<^verbatim>\<open>handleApiError\<close> takes any value at all, so also an object whose operations run
  code of its own: an accessor property, a proxy, a \<^verbatim>\<open>toJSON\<close> method. Such an object
  is given by what each operation the classifier applies to it does, which is to give
  its result or to raise: the two class tests, the \<^verbatim>\<open>in\<close> test and the read of
  \<open>message\<close>, and \<^verbatim>\<open>JSON.stringify\<close>. It is truthy and its \<^verbatim>\<open>typeof\<close> is \<^verbatim>\<open>object\<close>, or
  \<^verbatim>\<open>function\<close> when it is callable. Every other value is one of \<open>thrown\<close>, whose
  properties are plain data.
\<close>

datatype 'a reading = Reads 'a | Raising thrown

record exotic =
  exotic_instanceof_ApiError :: "bool reading"
  exotic_instanceof_Error :: "bool reading"
  exotic_callable :: bool
  exotic_in_message :: "bool reading"
  exotic_message :: "jsval reading"
  exotic_stringify :: "string option reading"

datatype unknown = Ordinary thrown | Exotic exotic

text \<open>
  \<^verbatim>\<open>handleApiError\<close>. \<open>fault_text\<close> is the message text the engine gives to each of its
  faults. The result is the value the function returns (\<open>VString\<close> of a text, or
  \<open>VUndefined\<close> where \<^verbatim>\<open>JSON.stringify\<close> gives \<^verbatim>\<open>undefined\<close>), or what escapes it. Only
  the call of \<^verbatim>\<open>JSON.stringify\<close> stands inside the \<^verbatim>\<open>try\<close>.
\<close>

definition stringify_or_fallback :: "string option reading \<Rightarrow> thrown + jsval" where
  "stringify_or_fallback r =
     (case r of
        Raising x \<Rightarrow> Inr (VString fallback_text)
      | Reads None \<Rightarrow> Inr VUndefined
      | Reads (Some text) \<Rightarrow> Inr (VString text))"

definition return_reading :: "jsval reading \<Rightarrow> thrown + jsval" where
  "return_reading r = (case r of Raising x \<Rightarrow> Inl x | Reads v \<Rightarrow> Inr v)"

definition handleApiError :: "(fault \<Rightarrow> string) \<Rightarrow> unknown \<Rightarrow> thrown + jsval" where
  "handleApiError fault_text error =
     (case error of
        Ordinary (Thrown_ApiError e) \<Rightarrow> Inr (VString (message e))
      | Ordinary (Thrown_fault f) \<Rightarrow> Inr (VString (fault_text f))
      | Ordinary (Thrown_Error m) \<Rightarrow> Inr (VString m)
      | Ordinary (Thrown_value v) \<Rightarrow>
          (case v of
             VString s \<Rightarrow> Inr (VString s)
           | _ \<Rightarrow>
               if truthy_value v \<and> typeof v = ''object'' \<and> has_property v ''message''
               then (case read_property v ''message'' of
                       VString m \<Rightarrow> Inr (VString m)
                     | _ \<Rightarrow> Inr (VString fallback_text))
               else stringify_or_fallback
                      (case JSON_stringify v of
                         Inl f \<Rightarrow> Raising (Thrown_fault f)
                       | Inr r \<Rightarrow> Reads r))
      | Exotic x \<Rightarrow>
          (case exotic_instanceof_ApiError x of
             Raising r \<Rightarrow> Inl r
           | Reads True \<Rightarrow> return_reading (exotic_message x)
           | Reads False \<Rightarrow>
               (case exotic_instanceof_Error x of
                  Raising r \<Rightarrow> Inl r
                | Reads True \<Rightarrow> return_reading (exotic_message x)
                | Reads False \<Rightarrow>
                    if exotic_callable x then stringify_or_fallback (exotic_stringify x)
                    else (case exotic_in_message x of
                            Raising r \<Rightarrow> Inl r
                          | Reads True \<Rightarrow>
                              (case exotic_message x of
                                 Raising r \<Rightarrow> Inl r
                               | Reads (VString m) \<Rightarrow> Inr (VString m)
                               | Reads m \<Rightarrow> Inr (VString fallback_text))
                          | Reads False \<Rightarrow> stringify_or_fallback (exotic_stringify x)))))"

text \<open>
  \<^verbatim>\<open>withErrorHandler\<close>. The wrapped function and the callback act on a state \<open>'s\<close> that
  they may change, and each either returns or raises. The result of the wrapper is the
  value (\<open>None\<close> for \<^verbatim>\<open>null\<close>) or what it raises, with the state it leaves. The line written
  to the console is not part of the state.
\<close>

definition withErrorHandler ::
  "('a \<Rightarrow> 's \<Rightarrow> ('e + 'r) \<times> 's) \<Rightarrow> ('e \<Rightarrow> 's \<Rightarrow> ('e + unit) \<times> 's) option \<Rightarrow>
   'a \<Rightarrow> 's \<Rightarrow> ('e + 'r option) \<times> 's" where
  "withErrorHandler fn onError args s =
     (case fn args s of
        (Inr v, s') \<Rightarrow> (Inr (Some v), s')
      | (Inl error, s') \<Rightarrow>
          (case onError of
             None \<Rightarrow> (Inr None, s')
           | Some handler \<Rightarrow>
               (case handler error s' of
                  (Inl raised, s'') \<Rightarrow> (Inl raised, s'')
                | (Inr u, s'') \<Rightarrow> (Inr None, s''))))"

section \<open>api.ts\<close>

definition TOKEN_KEY :: string where
  "TOKEN_KEY = ''cm_access_token''"

text \<open>\<open>env_url\<close> is \<^verbatim>\<open>process.env.NEXT_PUBLIC_API_URL\<close>, \<open>None\<close> when it is not set.\<close>

definition getApiUrl :: "string option \<Rightarrow> string" where
  "getApiUrl env_url =
     (case env_url of
        None \<Rightarrow> ''http://localhost:8000''
      | Some u \<Rightarrow> if u = [] then ''http://localhost:8000'' else u)"

text \<open>
  \<open>window\<close> is the browser's local storage, or \<open>None\<close> where there is no \<^verbatim>\<open>window\<close>.
\<close>

type_synonym storage = "string \<rightharpoonup> string"

definition getToken :: "storage option \<Rightarrow> string option" where
  "getToken window =
     (case window of
        None \<Rightarrow> None
      | Some localStorage \<Rightarrow> localStorage TOKEN_KEY)"

text \<open>
  \<^verbatim>\<open>HeadersInit\<close>: an array of pairs, a \<^verbatim>\<open>Headers\<close> object, or a plain record.
\<close>

datatype headers_init =
    Init_pairs "(string \<times> string) list"
  | Init_headers headers
  | Init_record "(string \<times> string) list"

text \<open>
  Iterating a \<^verbatim>\<open>Headers\<close> object (\<^verbatim>\<open>forEach\<close>, and the constructor that copies one):
  the names in lower case, sorted, each once with its values joined by a comma and a
  space, except \<^verbatim>\<open>set-cookie\<close>, whose values come one by one.
\<close>

definition Headers_entries :: "headers \<Rightarrow> (string \<times> string) list" where
  "Headers_entries h =
     concat (map (\<lambda>name. if name = ''set-cookie''
                          then map (Pair name) (header_values h name)
                          else [(name, join '', '' (header_values h name))])
                 (sort (remdups (map (toLowerCase \<circ> fst) h))))"

definition Headers_new :: "headers_init option \<Rightarrow> headers" where
  "Headers_new init =
     (case init of
        None \<Rightarrow> []
      | Some (Init_pairs ps) \<Rightarrow> fold (\<lambda>(k, v) h. Headers_append h k v) ps []
      | Some (Init_headers h0) \<Rightarrow> fold (\<lambda>(k, v) h. Headers_append h k v) (Headers_entries h0) []
      | Some (Init_record r) \<Rightarrow> fold (\<lambda>(k, v) h. Headers_append h k v) r [])"

text \<open>
  \<^verbatim>\<open>out[k] = v\<close> on a plain object: the key takes the value where it stands, a new key
  goes to the end. The key \<^verbatim>\<open>__proto__\<close> is the exception: assigning a string to it
  reaches the setter inherited from \<^verbatim>\<open>Object.prototype\<close>, which ignores it, and no
  property is made.
\<close>

definition assign_key :: "string \<Rightarrow> string \<Rightarrow> (string \<times> string) list \<Rightarrow> (string \<times> string) list" where
  "assign_key k v out = (if k = ''__proto__'' then out else AList.update k v out)"

definition init_entries :: "headers_init \<Rightarrow> (string \<times> string) list" where
  "init_entries a =
     (case a of
        Init_pairs ps \<Rightarrow> ps
      | Init_headers h \<Rightarrow> Headers_entries h
      | Init_record r \<Rightarrow> r)"

definition mergeHeaders ::
  "headers_init option \<Rightarrow> (string \<times> string) list \<Rightarrow> (string \<times> string) list" where
  "mergeHeaders a b =
     (let out = (case a of
                   None \<Rightarrow> []
                 | Some init \<Rightarrow> fold (\<lambda>(k, v) out. assign_key k v out) (init_entries init) [])
      in fold (\<lambda>(k, v) out. assign_key k v out) b out)"

text \<open>
  \<^verbatim>\<open>RequestInit\<close>, with the fields these sources set or read; the fields they only pass
  on are the record's extension. A call of \<^verbatim>\<open>fetch\<close> is its two arguments, and \<^verbatim>\<open>fetch\<close>
  itself is a parameter: the response it resolves to, or what it rejects with.
\<close>

record request_init =
  init_method :: "string option"
  init_headers :: "headers_init option"
  init_cache :: "string option"
  init_credentials :: "string option"

record 'x fetch_call =
  call_url :: string
  call_init :: "'x request_init_scheme"

definition injected_headers :: "string option \<Rightarrow> (string \<times> string) list" where
  "injected_headers token =
     (''Content-Type'', ''application/json'') #
     (case token of
        None \<Rightarrow> []
      | Some t \<Rightarrow> if t = [] then [] else [(''Authorization'', ''Bearer '' @ t)])"

definition request_call ::
  "string \<Rightarrow> storage option \<Rightarrow> string \<Rightarrow> 'x request_init_scheme \<Rightarrow> 'x fetch_call" where
  "request_call API window path options =
     (let token = getToken window;
          headers = mergeHeaders (init_headers options) (injected_headers token)
      in \<lparr>call_url = API @ path,
          call_init = options\<lparr>init_headers := Some (Init_record headers),
                              init_cache := Some ''no-store''\<rparr>\<rparr>)"

definition request ::
  "('x fetch_call \<Rightarrow> thrown + response) \<Rightarrow> string \<Rightarrow> storage option \<Rightarrow> string \<Rightarrow>
   'x request_init_scheme \<Rightarrow> thrown + response" where
  "request fetch API window path options = fetch (request_call API window path options)"

definition apiFetch_call ::
  "string \<Rightarrow> storage option \<Rightarrow> string \<Rightarrow> 'x request_init_scheme \<Rightarrow> 'x fetch_call" where
  "apiFetch_call API window path init =
     (let headers = Headers_new (init_headers init);
          token = getToken window;
          headers' = (case token of
                        None \<Rightarrow> headers
                      | Some t \<Rightarrow>
                          if t \<noteq> [] \<and> \<not> Headers_has headers ''authorization''
                          then Headers_set headers ''authorization'' (''Bearer '' @ t)
                          else headers)
      in \<lparr>call_url = API @ path,
          call_init = init\<lparr>init_headers := Some (Init_headers headers'),
                           init_credentials := Some ''omit''\<rparr>\<rparr>)"

definition apiFetch ::
  "(string \<Rightarrow> json option) \<Rightarrow> ('x fetch_call \<Rightarrow> thrown + response) \<Rightarrow> string \<Rightarrow>
   storage option \<Rightarrow> string \<Rightarrow> 'x request_init_scheme \<Rightarrow> thrown + response" where
  "apiFetch parse fetch API window path init =
     (case fetch (apiFetch_call API window path init) of
        Inl error \<Rightarrow> Inl error
      | Inr res \<Rightarrow>
          if \<not> res_ok res
          then (case fromResponse parse res of
                  Inl f \<Rightarrow> Inl (Thrown_fault f)
                | Inr e \<Rightarrow> Inl (Thrown_ApiError e))
          else Inr res)"

section \<open>The route handlers\<close>

text \<open>
  The two \<^verbatim>\<open>GET\<close> handlers, of the day-summary route and of the export-report route.
  An inbound request is its query string (\<^verbatim>\<open>url.search\<close>) and its headers. \<open>origin\<close>
  is the origin of \<^verbatim>\<open>API_BASE\<close>, against which the target path is resolved.
\<close>

record inbound_request =
  req_search :: string
  req_headers :: headers

definition forwarded_headers :: "headers \<Rightarrow> headers" where
  "forwarded_headers inbound =
     (let headers = [];
          headers = (case Headers_get inbound ''cookie'' of
                       None \<Rightarrow> headers
                     | Some cookie \<Rightarrow>
                         if cookie = [] then headers else Headers_set headers ''cookie'' cookie);
          headers = (case Headers_get inbound ''authorization'' of
                       None \<Rightarrow> headers
                     | Some authorization \<Rightarrow>
                         if authorization = [] then headers
                         else Headers_set headers ''authorization'' authorization)
      in headers)"

definition upstream_call :: "string \<Rightarrow> string \<Rightarrow> inbound_request \<Rightarrow> unit fetch_call" where
  "upstream_call origin route inbound =
     \<lparr>call_url = origin @ route @ req_search inbound,
      call_init = \<lparr>init_method = Some ''GET'',
                   init_headers = Some (Init_headers (forwarded_headers (req_headers inbound))),
                   init_cache = Some ''no-store'',
                   init_credentials = None\<rparr>\<rparr>"

text \<open>
  The response a handler returns: a JSON payload, or a body stream passed on as it is.
  The \<^verbatim>\<open>Response\<close> constructor, which \<^verbatim>\<open>NextResponse\<close> extends, refuses a status outside
  200 to 599 with a \<^verbatim>\<open>RangeError\<close>, and a body together with a null-body status with a
  \<^verbatim>\<open>TypeError\<close>.
\<close>

datatype response_body = Json_body json | Piped_body "body_stream option"

record next_response =
  out_status :: nat
  out_headers :: headers
  out_body :: response_body

definition null_body_status :: "nat \<Rightarrow> bool" where
  "null_body_status st = (st \<in> {101, 103, 204, 205, 304})"

definition init_fault :: "nat \<Rightarrow> bool \<Rightarrow> fault option" where
  "init_fault st has_body =
     (if st < 200 \<or> 599 < st then Some Status_out_of_range
      else if has_body \<and> null_body_status st then Some Null_body_status_with_body
      else None)"

definition NextResponse_json :: "json \<Rightarrow> nat \<Rightarrow> fault + next_response" where
  "NextResponse_json data st =
     (case init_fault st True of
        Some f \<Rightarrow> Inl f
      | None \<Rightarrow>
          Inr \<lparr>out_status = st,
               out_headers = [(''content-type'', ''application/json'')],
               out_body = Json_body data\<rparr>)"


text \<open>
  The \<^verbatim>\<open>catch\<close> block both handlers end with:
  \<^verbatim>\<open>error instanceof Error ? error.message : "Unknown error"\<close> at status 500.
\<close>

definition error_message :: "(fault \<Rightarrow> string) \<Rightarrow> thrown \<Rightarrow> string" where
  "error_message fault_text error =
     (case error of
        Thrown_ApiError e \<Rightarrow> message e
      | Thrown_fault f \<Rightarrow> fault_text f
      | Thrown_Error m \<Rightarrow> m
      | Thrown_value v \<Rightarrow> ''Unknown error'')"

definition internal_server_error :: "(fault \<Rightarrow> string) \<Rightarrow> thrown \<Rightarrow> next_response" where
  "internal_server_error fault_text error =
     \<lparr>out_status = 500,
      out_headers = [(''content-type'', ''application/json'')],
      out_body = Json_body (JObject [(''error'', JString ''Internal server error''),
                                     (''message'', JString (error_message fault_text error))])\<rparr>"

definition raise_fault :: "fault + 'a \<Rightarrow> thrown + 'a" where
  "raise_fault r = (case r of Inl f \<Rightarrow> Inl (Thrown_fault f) | Inr x \<Rightarrow> Inr x)"

text \<open>Handler A: the \<^verbatim>\<open>try\<close> block, and the handler with its \<^verbatim>\<open>catch\<close>.\<close>

definition day_summary_try ::
  "(string \<Rightarrow> json option) \<Rightarrow> (unit fetch_call \<Rightarrow> thrown + response) \<Rightarrow> string \<Rightarrow>
   inbound_request \<Rightarrow> thrown + next_response" where
  "day_summary_try parse fetch origin inbound =
     (case fetch (upstream_call origin ''/api/admin/day-summary'' inbound) of
        Inl error \<Rightarrow> Inl error
      | Inr res \<Rightarrow>
          (case Response_json parse res of
             (Inl f, res') \<Rightarrow>
               (case Response_text res' of
                  (Inl f', res'') \<Rightarrow> Inl (Thrown_fault f')
                | (Inr text, res'') \<Rightarrow>
                    raise_fault
                      (NextResponse_json
                         (JObject [(''error'', JString ''Failed to parse response''),
                                   (''details'', JString text)])
                         (res_status res)))
           | (Inr data, res') \<Rightarrow> raise_fault (NextResponse_json data (res_status res))))"

definition GET_day_summary ::
  "(fault \<Rightarrow> string) \<Rightarrow> (string \<Rightarrow> json option) \<Rightarrow> (unit fetch_call \<Rightarrow> thrown + response) \<Rightarrow>
   string \<Rightarrow> inbound_request \<Rightarrow> next_response" where
  "GET_day_summary fault_text parse fetch origin inbound =
     (case day_summary_try parse fetch origin inbound of
        Inl error \<Rightarrow> internal_server_error fault_text error
      | Inr out \<Rightarrow> out)"



section \<open>Inputs and notions of the statements\<close>

definition validation_body_text :: string where
  \<open>validation_body_text = ''{"detail":[{"msg":"field required"}]}''\<close>

definition validation_detail :: json where
  "validation_detail = JArray [JObject [(''msg'', JString ''field required'')]]"

definition validation_body :: json where
  "validation_body = JObject [(''detail'', validation_detail)]"

definition validation_parse :: "string \<Rightarrow> json option" where
  "validation_parse t = (if t = validation_body_text then Some validation_body else None)"

definition validation_response :: response where
  "validation_response =
     \<lparr>res_status = 422, res_statusText = ''Unprocessable Entity'',
      res_headers = [(''Content-Type'', ''application/json'')],
      res_body = Some (Stream validation_body_text), res_bodyUsed = False\<rparr>"

definition conflict_body_text :: string where
  \<open>conflict_body_text = ''{"detail":"Table is closed"}''\<close>

definition conflict_body :: json where
  "conflict_body = JObject [(''detail'', JString ''Table is closed'')]"

definition conflict_parse :: "string \<Rightarrow> json option" where
  "conflict_parse t = (if t = conflict_body_text then Some conflict_body else None)"

definition conflict_response :: response where
  "conflict_response =
     \<lparr>res_status = 409, res_statusText = ''Conflict'',
      res_headers = [(''content-type'', ''application/json; charset=utf-8'')],
      res_body = Some (Stream conflict_body_text), res_bodyUsed = False\<rparr>"

definition gateway_response :: response where
  "gateway_response =
     \<lparr>res_status = 502, res_statusText = ''Bad Gateway'',
      res_headers = [(''content-type'', ''text/plain'')],
      res_body = Some (Stream ''upstream down''), res_bodyUsed = False\<rparr>"

definition shadowing_body_text :: string where
  \<open>shadowing_body_text = ''{"detail":{"toString":1}}''\<close>

definition shadowing_body :: json where
  "shadowing_body =
     JObject [(''detail'', JObject [(''toString'', JNumber (Number False True ''1''))])]"

definition shadowing_parse :: "string \<Rightarrow> json option" where
  "shadowing_parse t = (if t = shadowing_body_text then Some shadowing_body else None)"

definition shadowing_response :: response where
  "shadowing_response =
     \<lparr>res_status = 400, res_statusText = ''Bad Request'',
      res_headers = [(''content-type'', ''application/json'')],
      res_body = Some (Stream shadowing_body_text), res_bodyUsed = False\<rparr>"

definition broken_response :: response where
  "broken_response =
     \<lparr>res_status = 500, res_statusText = ''Internal Server Error'',
      res_headers = [(''content-type'', ''application/json'')],
      res_body = Some Broken_stream, res_bodyUsed = False\<rparr>"

definition numeric_message :: jsval where
  "numeric_message = VObject [(''message'', VNumber (Number False True ''42''))]"

definition circular_object :: jsval where
  "circular_object = VObject [(''name'', VString ''loop''), (''self'', VCycle)]"

definition plain_fault_text :: "fault \<Rightarrow> string" where
  "plain_fault_text f = ''fault''"

definition getter_object :: exotic where
  "getter_object =
     \<lparr>exotic_instanceof_ApiError = Reads False,
      exotic_instanceof_Error = Reads False,
      exotic_callable = False,
      exotic_in_message = Reads True,
      exotic_message = Raising (Thrown_Error ''getter failed''),
      exotic_stringify = Raising (Thrown_Error ''getter failed'')\<rparr>"

definition custom_error :: exotic where
  "custom_error =
     \<lparr>exotic_instanceof_ApiError = Reads False,
      exotic_instanceof_Error = Reads True,
      exotic_callable = False,
      exotic_in_message = Reads True,
      exotic_message = Reads (VString ''disk full''),
      exotic_stringify = Reads (Some ''{}'')\<rparr>"

definition accessor_object :: exotic where
  "accessor_object =
     \<lparr>exotic_instanceof_ApiError = Reads False,
      exotic_instanceof_Error = Reads False,
      exotic_callable = False,
      exotic_in_message = Reads True,
      exotic_message = Reads (VString ''quota exceeded''),
      exotic_stringify = Reads (Some ''{}'')\<rparr>"

definition dated_object :: exotic where
  "dated_object =
     \<lparr>exotic_instanceof_ApiError = Reads False,
      exotic_instanceof_Error = Reads False,
      exotic_callable = False,
      exotic_in_message = Reads False,
      exotic_message = Reads VUndefined,
      exotic_stringify = Reads (Some ''2024-01-01'')\<rparr>"

definition failing_toJSON :: exotic where
  "failing_toJSON =
     \<lparr>exotic_instanceof_ApiError = Reads False,
      exotic_instanceof_Error = Reads False,
      exotic_callable = False,
      exotic_in_message = Reads False,
      exotic_message = Reads VUndefined,
      exotic_stringify = Raising (Thrown_Error ''toJSON failed'')\<rparr>"

definition failing_fn :: "nat \<Rightarrow> string list \<Rightarrow> (string + nat) \<times> string list" where
  "failing_fn n log = (if n = 0 then (Inl ''division by zero'', log) else (Inr (100 div n), log))"

definition recording_handler :: "string \<Rightarrow> string list \<Rightarrow> (string + unit) \<times> string list" where
  "recording_handler error log = (Inr (), log @ [error])"

definition raising_handler :: "string \<Rightarrow> string list \<Rightarrow> (string + unit) \<times> string list" where
  "raising_handler error log = (Inl ''handler failed'', log)"


definition browser_request :: inbound_request where
  "browser_request =
     \<lparr>req_search = ''?date=2024-01-01'',
      req_headers = [(''Cookie'', ''sid=1''), (''Authorization'', ''Bearer abc''),
                     (''Accept'', ''*/*'')]\<rparr>"


definition export_response :: response where
  "export_response =
     \<lparr>res_status = 200, res_statusText = ''OK'',
      res_headers = [(''Content-Type'', ''application/pdf''), (''Content-Encoding'', ''gzip''),
                     (''Content-Disposition'', ''attachment'')],
      res_body = Some (Stream ''%PDF-1.7''), res_bodyUsed = False\<rparr>"




definition error_page_response :: response where
  "error_page_response =
     \<lparr>res_status = 502, res_statusText = ''Bad Gateway'',
      res_headers = [(''content-type'', ''text/html'')],
      res_body = Some (Stream ''<html>Bad Gateway</html>''), res_bodyUsed = False\<rparr>"

definition error_page_upstream :: "unit fetch_call \<Rightarrow> thrown + response" where
  "error_page_upstream call = Inr error_page_response"

definition no_json :: "string \<Rightarrow> json option" where
  "no_json text = None"

definition headers_passed :: "'x fetch_call \<Rightarrow> (string \<times> string) list" where
  "headers_passed call =
     (case init_headers (call_init call) of
        None \<Rightarrow> []
      | Some init \<Rightarrow> init_entries init)"

definition headers_sent :: "'x fetch_call \<Rightarrow> headers" where
  "headers_sent call = Headers_new (init_headers (call_init call))"

definition token_storage :: "storage option" where
  "token_storage = Some (Map.empty(TOKEN_KEY \<mapsto> ''abc''))"

definition no_options :: request_init where
  "no_options =
     \<lparr>init_method = None, init_headers = None, init_cache = None, init_credentials = None\<rparr>"

definition text_options :: request_init where
  "text_options =
     \<lparr>init_method = Some ''POST'',
      init_headers = Some (Init_headers [(''Content-Type'', ''text/plain'')]),
      init_cache = None, init_credentials = None\<rparr>"

definition record_options :: request_init where
  "record_options =
     \<lparr>init_method = Some ''POST'',
      init_headers = Some (Init_record [(''Content-Type'', ''text/plain'')]),
      init_cache = None, init_credentials = None\<rparr>"

definition own_auth_options :: request_init where
  "own_auth_options =
     \<lparr>init_method = None,
      init_headers = Some (Init_record [(''Authorization'', ''Basic xyz''), (''Accept'', ''*/*'')]),
      init_cache = None, init_credentials = Some ''include''\<rparr>"

definition failing_fetch :: "unit fetch_call \<Rightarrow> thrown + response" where
  "failing_fetch call = Inr conflict_response"

definition succeeding_fetch :: "unit fetch_call \<Rightarrow> thrown + response" where
  "succeeding_fetch call = Inr export_response"

definition offline_fetch :: "unit fetch_call \<Rightarrow> thrown + response" where
  "offline_fetch call = Inl (Thrown_Error ''Failed to fetch'')"

definition shadowing_fetch :: "unit fetch_call \<Rightarrow> thrown + response" where
  "shadowing_fetch call = Inr shadowing_response"

section \<open>Properties\<close>

subsection \<open>Errors built from a response\<close>

lemma ToString_fault:
  "ToString j = Inl f \<Longrightarrow> f = Cannot_convert_to_primitive"
  "join_elements xs = Inl f \<Longrightarrow> f = Cannot_convert_to_primitive"
  by (induction j and xs rule: ToString_join_elements.induct)
     (auto split: if_splits sum.splits)

lemma message_new_ApiError:
  "map_sum id message (new_ApiError v st det) = ToString v"
  by (simp add: new_ApiError_def split: sum.splits)

text \<open>
  Claim C1, as the code has it. For a response whose content type contains
  \<^verbatim>\<open>application/json\<close> and whose body parses, the message of the error is the string
  conversion of the body's \<open>detail\<close> when that value is truthy, otherwise the string
  conversion of its \<open>message\<close> when that is truthy, otherwise the default text
  \<^verbatim>\<open>API {status}: {statusText}\<close>; the error is built exactly when the conversion gives a
  string. In particular a \<open>detail\<close> that is a non-empty string is the message. For any
  other content type whose body reads as text, the message is that text when it is not
  empty and the default text otherwise.
\<close>

theorem fromResponse_message:
  "(string_includes (content_type res) ''application/json'' \<and>
    fst (Response_json parse res) = Inr j \<longrightarrow>
      map_sum id message (fromResponse parse res) =
        (if truthy (get_property j ''detail'') then ToString (the (get_property j ''detail''))
         else if truthy (get_property j ''message'') then ToString (the (get_property j ''message''))
         else Inr (default_message res)))
   \<and> (string_includes (content_type res) ''application/json'' \<and>
      fst (Response_json parse res) = Inr j \<and>
      get_property j ''detail'' = Some (JString s) \<and> s \<noteq> [] \<longrightarrow>
        fromResponse parse res =
          Inr \<lparr>message = s, status = res_status res, details = Some j\<rparr>)
   \<and> (\<not> string_includes (content_type res) ''application/json'' \<and>
      fst (Response_text res) = Inr text \<longrightarrow>
        fromResponse parse res =
          Inr \<lparr>message = (if text = [] then default_message res else text),
               status = res_status res, details = Some (JString text)\<rparr>)"
  by (simp add: fromResponse_def message_new_ApiError choose_message_def)
     (simp add: new_ApiError_def)

text \<open>
  The message is not always the \<open>detail\<close> field itself: a validation failure whose
  \<open>detail\<close> is a list of objects gives the message \<^verbatim>\<open>[object Object]\<close>.
\<close>

theorem fromResponse_message_counterexample:
  "string_includes (content_type validation_response) ''application/json'' \<and>
   fst (Response_json validation_parse validation_response) = Inr validation_body \<and>
   get_property validation_body ''detail'' = Some validation_detail \<and>
   fromResponse validation_parse validation_response =
     Inr \<lparr>message = ''[object Object]'', status = 422, details = Some validation_body\<rparr> \<and>
   JString ''[object Object]'' \<noteq> validation_detail"
  by code_simp

theorem fromResponse_message_witness:
  "(string_includes (content_type validation_response) ''application/json'' \<and>
    fst (Response_json validation_parse validation_response) = Inr validation_body) \<and>
   map_sum id message (fromResponse validation_parse validation_response) =
     Inr ''[object Object]'' \<and>
   (string_includes (content_type conflict_response) ''application/json'' \<and>
    fst (Response_json conflict_parse conflict_response) = Inr conflict_body \<and>
    get_property conflict_body ''detail'' = Some (JString ''Table is closed'') \<and>
    ''Table is closed'' \<noteq> []) \<and>
   fromResponse conflict_parse conflict_response =
     Inr \<lparr>message = ''Table is closed'', status = 409, details = Some conflict_body\<rparr> \<and>
   (\<not> string_includes (content_type gateway_response) ''application/json'' \<and>
    fst (Response_text gateway_response) = Inr ''upstream down'') \<and>
   fromResponse conflict_parse gateway_response =
     Inr \<lparr>message = ''upstream down'', status = 502,
          details = Some (JString ''upstream down'')\<rparr>"
proof -
  have h1: "string_includes (content_type validation_response) ''application/json'' \<and>
      fst (Response_json validation_parse validation_response) = Inr validation_body"
    by code_simp
  have v1: "(if truthy (get_property validation_body ''detail'')
             then ToString (the (get_property validation_body ''detail''))
             else if truthy (get_property validation_body ''message'')
                  then ToString (the (get_property validation_body ''message''))
                  else Inr (default_message validation_response)) = Inr ''[object Object]''"
    by code_simp
  have h2: "string_includes (content_type conflict_response) ''application/json'' \<and>
      fst (Response_json conflict_parse conflict_response) = Inr conflict_body \<and>
      get_property conflict_body ''detail'' = Some (JString ''Table is closed'') \<and>
      ''Table is closed'' \<noteq> []"
    by code_simp
  have h3: "\<not> string_includes (content_type gateway_response) ''application/json'' \<and>
      fst (Response_text gateway_response) = Inr ''upstream down''"
    by code_simp
  have s3: "res_status gateway_response = 502" "res_status conflict_response = 409"
    by (simp_all add: gateway_response_def conflict_response_def)
  note t1 = fromResponse_message
    [of validation_response validation_parse validation_body "[]" "[]",
     THEN conjunct1, rule_format, OF h1]
  note t2 = fromResponse_message
    [of conflict_response conflict_parse conflict_body "''Table is closed''" "[]",
     THEN conjunct2, THEN conjunct1, rule_format, OF h2]
  note t3 = fromResponse_message
    [of gateway_response conflict_parse conflict_body "[]" "''upstream down''",
     THEN conjunct2, THEN conjunct2, rule_format, OF h3]
  show ?thesis
    using h1 h2 h3 t1 t2 t3 v1 s3 by simp
qed

text \<open>
  Claim C5, as the code has it. When the body cannot be read or parsed, the error carries
  the default text and no details. Building the error raises in one case only: the
  content type contains \<^verbatim>\<open>application/json\<close>, the body parses, and the value chosen
  from \<open>detail\<close> or \<open>message\<close> has no string conversion, which the constructor reports
  with a \<^verbatim>\<open>TypeError\<close> outside the \<^verbatim>\<open>try\<close> block.
\<close>

theorem fromResponse_unreadable_body:
  "(string_includes (content_type res) ''application/json'' \<and>
    fst (Response_json parse res) = Inl f \<longrightarrow>
      fromResponse parse res =
        Inr \<lparr>message = default_message res, status = res_status res, details = None\<rparr>)
   \<and> (\<not> string_includes (content_type res) ''application/json'' \<and>
      fst (Response_text res) = Inl f \<longrightarrow>
        fromResponse parse res =
          Inr \<lparr>message = default_message res, status = res_status res, details = None\<rparr>)
   \<and> (fromResponse parse res = Inl g \<longrightarrow>
        g = Cannot_convert_to_primitive \<and>
        string_includes (content_type res) ''application/json'' \<and>
        (\<exists>j. fst (Response_json parse res) = Inr j \<and>
           ((truthy (get_property j ''detail'') \<and>
             ToString (the (get_property j ''detail'')) = Inl g) \<or>
            (\<not> truthy (get_property j ''detail'') \<and> truthy (get_property j ''message'') \<and>
             ToString (the (get_property j ''message'')) = Inl g))))"
proof (intro conjI impI)
  assume "string_includes (content_type res) ''application/json'' \<and>
    fst (Response_json parse res) = Inl f"
  then show "fromResponse parse res =
        Inr \<lparr>message = default_message res, status = res_status res, details = None\<rparr>"
    by (simp add: fromResponse_def new_ApiError_def)
next
  assume "\<not> string_includes (content_type res) ''application/json'' \<and>
      fst (Response_text res) = Inl f"
  then show "fromResponse parse res =
        Inr \<lparr>message = default_message res, status = res_status res, details = None\<rparr>"
    by (simp add: fromResponse_def new_ApiError_def)
next
  assume g: "fromResponse parse res = Inl g"
  then have conv: "\<exists>v st det. new_ApiError v st det = Inl g"
    by (auto simp: fromResponse_def Let_def split: if_splits sum.splits)
  then obtain v st det where "new_ApiError v st det = Inl g"
    by blast
  then have "ToString v = Inl g"
    by (simp add: new_ApiError_def split: sum.splits)
  then show "g = Cannot_convert_to_primitive"
    by (rule ToString_fault(1))
  from g show "string_includes (content_type res) ''application/json''"
    by (auto simp: fromResponse_def Let_def new_ApiError_def split: if_splits sum.splits)
  from g show "\<exists>j. fst (Response_json parse res) = Inr j \<and>
           ((truthy (get_property j ''detail'') \<and>
             ToString (the (get_property j ''detail'')) = Inl g) \<or>
            (\<not> truthy (get_property j ''detail'') \<and> truthy (get_property j ''message'') \<and>
             ToString (the (get_property j ''message'')) = Inl g))"
    by (auto simp: fromResponse_def Let_def new_ApiError_def choose_message_def
             split: if_splits sum.splits)
qed

text \<open>
  A body whose \<open>detail\<close> is an object with an own \<^verbatim>\<open>toString\<close> key makes the
  construction raise.
\<close>

theorem fromResponse_raises_counterexample:
  "fromResponse shadowing_parse shadowing_response = Inl Cannot_convert_to_primitive"
  by code_simp

theorem fromResponse_unreadable_body_witness:
  "(string_includes (content_type broken_response) ''application/json'' \<and>
    fst (Response_json shadowing_parse broken_response) = Inl Body_read_failed) \<and>
   fromResponse shadowing_parse broken_response =
     Inr \<lparr>message = ''API 500: Internal Server Error'', status = 500, details = None\<rparr> \<and>
   (\<not> string_includes (content_type (gateway_response\<lparr>res_bodyUsed := True\<rparr>)) ''application/json'' \<and>
    fst (Response_text (gateway_response\<lparr>res_bodyUsed := True\<rparr>)) = Inl Body_unusable) \<and>
   fromResponse shadowing_parse (gateway_response\<lparr>res_bodyUsed := True\<rparr>) =
     Inr \<lparr>message = ''API 502: Bad Gateway'', status = 502, details = None\<rparr> \<and>
   fromResponse shadowing_parse shadowing_response = Inl Cannot_convert_to_primitive \<and>
   string_includes (content_type shadowing_response) ''application/json''"
proof -
  have h1: "string_includes (content_type broken_response) ''application/json'' \<and>
    fst (Response_json shadowing_parse broken_response) = Inl Body_read_failed"
    by code_simp
  have h2: "\<not> string_includes (content_type (gateway_response\<lparr>res_bodyUsed := True\<rparr>)) ''application/json'' \<and>
    fst (Response_text (gateway_response\<lparr>res_bodyUsed := True\<rparr>)) = Inl Body_unusable"
    by code_simp
  have h3: "fromResponse shadowing_parse shadowing_response = Inl Cannot_convert_to_primitive"
    by code_simp
  have d: "default_message broken_response = ''API 500: Internal Server Error''"
    "default_message (gateway_response\<lparr>res_bodyUsed := True\<rparr>) = ''API 502: Bad Gateway''"
    "res_status broken_response = 500" "res_status gateway_response = 502"
    by code_simp+
  note t1 = fromResponse_unreadable_body
    [of broken_response shadowing_parse Body_read_failed Body_unusable,
     THEN conjunct1, rule_format, OF h1]
  note t2 = fromResponse_unreadable_body
    [of "gateway_response\<lparr>res_bodyUsed := True\<rparr>" shadowing_parse Body_unusable Body_unusable,
     THEN conjunct2, THEN conjunct1, rule_format, OF h2]
  note t3 = fromResponse_unreadable_body
    [of shadowing_response shadowing_parse Body_unusable Cannot_convert_to_primitive,
     THEN conjunct2, THEN conjunct2, rule_format, OF h3]
  show ?thesis
    using h1 h2 h3 t1 t2 t3 d by simp
qed

subsection \<open>The classifier and the wrapper\<close>

lemma has_property_object:
  "has_property v name \<Longrightarrow> truthy_value v \<and> typeof v = ''object''"
  by (cases v) simp_all

lemma handleApiError_ordinary_returns: "\<exists>r. handleApiError ft (Ordinary error) = Inr r"
proof (cases error)
  case (Thrown_value v)
  then show ?thesis
    by (cases v)
       (auto simp: handleApiError_def stringify_or_fallback_def
          split: sum.splits jsval.splits option.splits)
qed (simp_all add: handleApiError_def)

lemma handleApiError_exotic_raises:
  "handleApiError ft (Exotic x) = Inl r \<longleftrightarrow>
     exotic_instanceof_ApiError x = Raising r
     \<or> (exotic_instanceof_ApiError x = Reads False \<and> exotic_instanceof_Error x = Raising r)
     \<or> ((exotic_instanceof_ApiError x = Reads True \<or>
          exotic_instanceof_ApiError x = Reads False \<and> exotic_instanceof_Error x = Reads True) \<and>
         exotic_message x = Raising r)
     \<or> (exotic_instanceof_ApiError x = Reads False \<and> exotic_instanceof_Error x = Reads False \<and>
         \<not> exotic_callable x \<and> exotic_in_message x = Raising r)
     \<or> (exotic_instanceof_ApiError x = Reads False \<and> exotic_instanceof_Error x = Reads False \<and>
         \<not> exotic_callable x \<and> exotic_in_message x = Reads True \<and>
         exotic_message x = Raising r)"
  by (auto simp: handleApiError_def return_reading_def stringify_or_fallback_def
      split: reading.splits bool.splits jsval.splits option.splits)

text \<open>
  Claim C2, as the code has it. The result follows this order: the message of an
  \<^verbatim>\<open>ApiError\<close>; the message of any other \<^verbatim>\<open>Error\<close>; a string itself; for an object with a
  \<open>message\<close> property, that property when it is a string and the fallback text when it
  is not; otherwise the text \<^verbatim>\<open>JSON.stringify\<close> gives, or the fallback text when
  \<^verbatim>\<open>JSON.stringify\<close> raises. For a value whose properties are plain data the classifier
  never raises. For an object whose operations run code of its own the order is the
  same, and the classifier raises exactly when a class test, the \<^verbatim>\<open>in\<close> test or the
  read of \<open>message\<close> that it reaches raises, all of which stand outside the \<^verbatim>\<open>try\<close>.
\<close>

theorem handleApiError_priority:
  "handleApiError ft (Ordinary (Thrown_ApiError e)) = Inr (VString (message e))
   \<and> handleApiError ft (Ordinary (Thrown_Error m)) = Inr (VString m)
   \<and> handleApiError ft (Ordinary (Thrown_fault f)) = Inr (VString (ft f))
   \<and> handleApiError ft (Ordinary (Thrown_value (VString s))) = Inr (VString s)
   \<and> (has_property v ''message'' \<longrightarrow>
        handleApiError ft (Ordinary (Thrown_value v)) =
          Inr (VString (case read_property v ''message'' of
                          VString m \<Rightarrow> m
                        | _ \<Rightarrow> fallback_text)))
   \<and> (typeof v \<noteq> ''string'' \<and> \<not> has_property v ''message'' \<longrightarrow>
        (JSON_stringify v = Inr (Some t) \<longrightarrow>
           handleApiError ft (Ordinary (Thrown_value v)) = Inr (VString t)) \<and>
        (JSON_stringify v = Inl g \<longrightarrow>
           handleApiError ft (Ordinary (Thrown_value v)) = Inr (VString fallback_text)))
   \<and> (\<exists>r. handleApiError ft (Ordinary error) = Inr r)
   \<and> ((exotic_instanceof_ApiError x = Reads True \<or>
        exotic_instanceof_ApiError x = Reads False \<and> exotic_instanceof_Error x = Reads True) \<and>
       exotic_message x = Reads w \<longrightarrow>
        handleApiError ft (Exotic x) = Inr w)
   \<and> (exotic_instanceof_ApiError x = Reads False \<and> exotic_instanceof_Error x = Reads False \<and>
       \<not> exotic_callable x \<and> exotic_in_message x = Reads True \<and>
       exotic_message x = Reads w \<longrightarrow>
        handleApiError ft (Exotic x) =
          Inr (VString (case w of VString m \<Rightarrow> m | _ \<Rightarrow> fallback_text)))
   \<and> (exotic_instanceof_ApiError x = Reads False \<and> exotic_instanceof_Error x = Reads False \<and>
       (exotic_callable x \<or> exotic_in_message x = Reads False) \<longrightarrow>
        (exotic_stringify x = Reads (Some t) \<longrightarrow>
           handleApiError ft (Exotic x) = Inr (VString t)) \<and>
        (exotic_stringify x = Raising r \<longrightarrow>
           handleApiError ft (Exotic x) = Inr (VString fallback_text)))
   \<and> (handleApiError ft (Exotic x) = Inl r \<longleftrightarrow>
        exotic_instanceof_ApiError x = Raising r
        \<or> (exotic_instanceof_ApiError x = Reads False \<and> exotic_instanceof_Error x = Raising r)
        \<or> ((exotic_instanceof_ApiError x = Reads True \<or>
             exotic_instanceof_ApiError x = Reads False \<and>
             exotic_instanceof_Error x = Reads True) \<and>
            exotic_message x = Raising r)
        \<or> (exotic_instanceof_ApiError x = Reads False \<and>
            exotic_instanceof_Error x = Reads False \<and>
            \<not> exotic_callable x \<and> exotic_in_message x = Raising r)
        \<or> (exotic_instanceof_ApiError x = Reads False \<and>
            exotic_instanceof_Error x = Reads False \<and>
            \<not> exotic_callable x \<and> exotic_in_message x = Reads True \<and>
            exotic_message x = Raising r))"
proof (intro conjI impI)
  show "handleApiError ft (Ordinary (Thrown_ApiError e)) = Inr (VString (message e))"
    by (simp add: handleApiError_def)
  show "handleApiError ft (Ordinary (Thrown_Error m)) = Inr (VString m)"
    by (simp add: handleApiError_def)
  show "handleApiError ft (Ordinary (Thrown_fault f)) = Inr (VString (ft f))"
    by (simp add: handleApiError_def)
  show "handleApiError ft (Ordinary (Thrown_value (VString s))) = Inr (VString s)"
    by (simp add: handleApiError_def)
next
  assume hp: "has_property v ''message''"
  then obtain ps where v: "v = VObject ps"
    by (cases v) simp_all
  with hp show "handleApiError ft (Ordinary (Thrown_value v)) =
      Inr (VString (case read_property v ''message'' of VString m \<Rightarrow> m | _ \<Rightarrow> fallback_text))"
    by (simp add: handleApiError_def split: option.splits jsval.splits)
next
  assume a: "typeof v \<noteq> ''string'' \<and> \<not> has_property v ''message''"
    and j: "JSON_stringify v = Inr (Some t)"
  then show "handleApiError ft (Ordinary (Thrown_value v)) = Inr (VString t)"
    by (cases v) (simp_all add: handleApiError_def stringify_or_fallback_def)
next
  assume a: "typeof v \<noteq> ''string'' \<and> \<not> has_property v ''message''"
    and j: "JSON_stringify v = Inl g"
  then show "handleApiError ft (Ordinary (Thrown_value v)) = Inr (VString fallback_text)"
    by (cases v) (simp_all add: handleApiError_def stringify_or_fallback_def)
next
  show "\<exists>r. handleApiError ft (Ordinary error) = Inr r"
    by (rule handleApiError_ordinary_returns)
next
  assume "(exotic_instanceof_ApiError x = Reads True \<or>
        exotic_instanceof_ApiError x = Reads False \<and> exotic_instanceof_Error x = Reads True) \<and>
       exotic_message x = Reads w"
  then show "handleApiError ft (Exotic x) = Inr w"
    by (auto simp: handleApiError_def return_reading_def)
next
  assume "exotic_instanceof_ApiError x = Reads False \<and> exotic_instanceof_Error x = Reads False \<and>
       \<not> exotic_callable x \<and> exotic_in_message x = Reads True \<and>
       exotic_message x = Reads w"
  then show "handleApiError ft (Exotic x) =
      Inr (VString (case w of VString m \<Rightarrow> m | _ \<Rightarrow> fallback_text))"
    by (cases w) (simp_all add: handleApiError_def)
next
  assume "exotic_instanceof_ApiError x = Reads False \<and> exotic_instanceof_Error x = Reads False \<and>
       (exotic_callable x \<or> exotic_in_message x = Reads False)"
    and "exotic_stringify x = Reads (Some t)"
  then show "handleApiError ft (Exotic x) = Inr (VString t)"
    by (auto simp: handleApiError_def stringify_or_fallback_def)
next
  assume "exotic_instanceof_ApiError x = Reads False \<and> exotic_instanceof_Error x = Reads False \<and>
       (exotic_callable x \<or> exotic_in_message x = Reads False)"
    and "exotic_stringify x = Raising r"
  then show "handleApiError ft (Exotic x) = Inr (VString fallback_text)"
    by (auto simp: handleApiError_def stringify_or_fallback_def)
next
  show "handleApiError ft (Exotic x) = Inl r \<longleftrightarrow>
        exotic_instanceof_ApiError x = Raising r
        \<or> (exotic_instanceof_ApiError x = Reads False \<and> exotic_instanceof_Error x = Raising r)
        \<or> ((exotic_instanceof_ApiError x = Reads True \<or>
             exotic_instanceof_ApiError x = Reads False \<and>
             exotic_instanceof_Error x = Reads True) \<and>
            exotic_message x = Raising r)
        \<or> (exotic_instanceof_ApiError x = Reads False \<and>
            exotic_instanceof_Error x = Reads False \<and>
            \<not> exotic_callable x \<and> exotic_in_message x = Raising r)
        \<or> (exotic_instanceof_ApiError x = Reads False \<and>
            exotic_instanceof_Error x = Reads False \<and>
            \<not> exotic_callable x \<and> exotic_in_message x = Reads True \<and>
            exotic_message x = Raising r)"
    by (rule handleApiError_exotic_raises)
qed

text \<open>
  An object whose \<open>message\<close> is the number 42 is not serialized: the result is the
  fallback text. And an object whose \<open>message\<close> is an accessor that raises makes the
  classifier raise.
\<close>

theorem handleApiError_counterexample:
  \<open>handleApiError plain_fault_text (Ordinary (Thrown_value numeric_message)) =
     Inr (VString fallback_text) \<and>
   JSON_stringify numeric_message = Inr (Some ''{"message":42}'') \<and>
   fallback_text \<noteq> ''{"message":42}'' \<and>
   handleApiError plain_fault_text (Exotic getter_object) =
     Inl (Thrown_Error ''getter failed'')\<close>
  by code_simp

theorem handleApiError_priority_witness:
  \<open>has_property numeric_message ''message'' \<and>
   handleApiError plain_fault_text (Ordinary (Thrown_value numeric_message)) =
     Inr (VString fallback_text) \<and>
   (typeof circular_object \<noteq> ''string'' \<and> \<not> has_property circular_object ''message'') \<and>
   JSON_stringify circular_object = Inl Circular_structure \<and>
   handleApiError plain_fault_text (Ordinary (Thrown_value circular_object)) =
     Inr (VString fallback_text) \<and>
   (typeof (VArray [VNull]) \<noteq> ''string'' \<and> \<not> has_property (VArray [VNull]) ''message'') \<and>
   JSON_stringify (VArray [VNull]) = Inr (Some ''[null]'') \<and>
   handleApiError plain_fault_text (Ordinary (Thrown_value (VArray [VNull]))) =
     Inr (VString ''[null]'') \<and>
   handleApiError plain_fault_text (Exotic custom_error) = Inr (VString ''disk full'') \<and>
   handleApiError plain_fault_text (Exotic accessor_object) = Inr (VString ''quota exceeded'') \<and>
   handleApiError plain_fault_text (Exotic dated_object) = Inr (VString ''2024-01-01'') \<and>
   handleApiError plain_fault_text (Exotic failing_toJSON) = Inr (VString fallback_text) \<and>
   handleApiError plain_fault_text (Exotic getter_object) =
     Inl (Thrown_Error ''getter failed'')\<close>
proof -
  have h1: "has_property numeric_message ''message''"
    by code_simp
  have v1: "(case read_property numeric_message ''message'' of
               VString m \<Rightarrow> m | _ \<Rightarrow> fallback_text) = fallback_text"
    by (simp add: numeric_message_def)
  have h2: "typeof circular_object \<noteq> ''string'' \<and> \<not> has_property circular_object ''message''"
    by code_simp
  have j2: "JSON_stringify circular_object = Inl Circular_structure"
    by code_simp
  have h3: "typeof (VArray [VNull]) \<noteq> ''string'' \<and> \<not> has_property (VArray [VNull]) ''message''"
    by code_simp
  have j3: "JSON_stringify (VArray [VNull]) = Inr (Some ''[null]'')"
    by code_simp
  have h4: "(exotic_instanceof_ApiError custom_error = Reads True \<or>
      exotic_instanceof_ApiError custom_error = Reads False \<and>
      exotic_instanceof_Error custom_error = Reads True) \<and>
      exotic_message custom_error = Reads (VString ''disk full'')"
    by (simp add: custom_error_def)
  have h5: "exotic_instanceof_ApiError accessor_object = Reads False \<and>
      exotic_instanceof_Error accessor_object = Reads False \<and>
      \<not> exotic_callable accessor_object \<and> exotic_in_message accessor_object = Reads True \<and>
      exotic_message accessor_object = Reads (VString ''quota exceeded'')"
    by (simp add: accessor_object_def)
  have h6: "exotic_instanceof_ApiError dated_object = Reads False \<and>
      exotic_instanceof_Error dated_object = Reads False \<and>
      (exotic_callable dated_object \<or> exotic_in_message dated_object = Reads False)"
    "exotic_stringify dated_object = Reads (Some ''2024-01-01'')"
    by (simp_all add: dated_object_def)
  have h7: "exotic_instanceof_ApiError failing_toJSON = Reads False \<and>
      exotic_instanceof_Error failing_toJSON = Reads False \<and>
      (exotic_callable failing_toJSON \<or> exotic_in_message failing_toJSON = Reads False)"
    "exotic_stringify failing_toJSON = Raising (Thrown_Error ''toJSON failed'')"
    by (simp_all add: failing_toJSON_def)
  have h8: "exotic_instanceof_ApiError getter_object = Reads False \<and>
      exotic_instanceof_Error getter_object = Reads False \<and>
      \<not> exotic_callable getter_object \<and> exotic_in_message getter_object = Reads True \<and>
      exotic_message getter_object = Raising (Thrown_Error ''getter failed'')"
    by (simp add: getter_object_def)
  note t1 = handleApiError_priority [where v = numeric_message, where ft = plain_fault_text,
      THEN conjunct2, THEN conjunct2, THEN conjunct2, THEN conjunct2, THEN conjunct1,
      rule_format, OF h1]
  note t2 = handleApiError_priority [where v = circular_object, where ft = plain_fault_text,
      where g = Circular_structure,
      THEN conjunct2, THEN conjunct2, THEN conjunct2, THEN conjunct2, THEN conjunct2,
      THEN conjunct1, rule_format, OF h2, THEN conjunct2, rule_format, OF j2]
  note t3 = handleApiError_priority [where v = "VArray [VNull]", where ft = plain_fault_text,
      where t = "''[null]''",
      THEN conjunct2, THEN conjunct2, THEN conjunct2, THEN conjunct2, THEN conjunct2,
      THEN conjunct1, rule_format, OF h3, THEN conjunct1, rule_format, OF j3]
  note t4 = handleApiError_priority [where x = custom_error, where ft = plain_fault_text,
      where w = "VString ''disk full''",
      THEN conjunct2, THEN conjunct2, THEN conjunct2, THEN conjunct2, THEN conjunct2,
      THEN conjunct2, THEN conjunct2, THEN conjunct1, rule_format, OF h4]
  note t5 = handleApiError_priority [where x = accessor_object, where ft = plain_fault_text,
      where w = "VString ''quota exceeded''",
      THEN conjunct2, THEN conjunct2, THEN conjunct2, THEN conjunct2, THEN conjunct2,
      THEN conjunct2, THEN conjunct2, THEN conjunct2, THEN conjunct1, rule_format, OF h5]
  note t6 = handleApiError_priority [where x = dated_object, where ft = plain_fault_text,
      where t = "''2024-01-01''",
      THEN conjunct2, THEN conjunct2, THEN conjunct2, THEN conjunct2, THEN conjunct2,
      THEN conjunct2, THEN conjunct2, THEN conjunct2, THEN conjunct2, THEN conjunct1,
      rule_format, OF h6(1), THEN conjunct1, rule_format, OF h6(2)]
  note t7 = handleApiError_priority [where x = failing_toJSON, where ft = plain_fault_text,
      where r = "Thrown_Error ''toJSON failed''",
      THEN conjunct2, THEN conjunct2, THEN conjunct2, THEN conjunct2, THEN conjunct2,
      THEN conjunct2, THEN conjunct2, THEN conjunct2, THEN conjunct2, THEN conjunct1,
      rule_format, OF h7(1), THEN conjunct2, rule_format, OF h7(2)]
  note t8 = handleApiError_priority [where x = getter_object, where ft = plain_fault_text,
      where r = "Thrown_Error ''getter failed''",
      THEN conjunct2, THEN conjunct2, THEN conjunct2, THEN conjunct2, THEN conjunct2,
      THEN conjunct2, THEN conjunct2, THEN conjunct2, THEN conjunct2, THEN conjunct2]
  have t8': "handleApiError plain_fault_text (Exotic getter_object) =
      Inl (Thrown_Error ''getter failed'')"
    using t8 h8 by simp
  show ?thesis
    using h1 h2 h3 j2 j3 t1 t2 t3 t4 t5 t6 t7 t8' v1 by simp
qed

text \<open>
  Claim C10, as the code has it. The wrapped function returns the value \<open>fn\<close> resolves
  to. When \<open>fn\<close> rejects and no callback is given it returns \<^verbatim>\<open>null\<close>; when a callback is
  given it is called with the rejection value in the state \<open>fn\<close> left, and the wrapper
  returns \<^verbatim>\<open>null\<close> if the callback returns and raises what the callback raises
  otherwise. Nothing else makes the wrapper raise.
\<close>

theorem withErrorHandler_outcomes:
  "(fn args s = (Inr v, s') \<longrightarrow>
      withErrorHandler fn onError args s = (Inr (Some v), s'))
   \<and> (fn args s = (Inl error, s') \<and> onError = None \<longrightarrow>
      withErrorHandler fn onError args s = (Inr None, s'))
   \<and> (fn args s = (Inl error, s') \<and> onError = Some handler \<and>
      handler error s' = (Inr u, s'') \<longrightarrow>
      withErrorHandler fn onError args s = (Inr None, s''))
   \<and> (fn args s = (Inl error, s') \<and> onError = Some handler \<and>
      handler error s' = (Inl raised, s'') \<longrightarrow>
      withErrorHandler fn onError args s = (Inl raised, s''))
   \<and> (withErrorHandler fn onError args s = (Inl raised, s'') \<longrightarrow>
      (\<exists>error s' handler. fn args s = (Inl error, s') \<and> onError = Some handler \<and>
         handler error s' = (Inl raised, s'')))"
  by (auto simp: withErrorHandler_def split: sum.splits option.splits prod.splits)

text \<open>A callback that raises makes the wrapped function raise.\<close>

theorem withErrorHandler_counterexample:
  "failing_fn 0 [] = (Inl ''division by zero'', []) \<and>
   withErrorHandler failing_fn (Some raising_handler) 0 [] = (Inl ''handler failed'', [])"
  by (simp add: withErrorHandler_def failing_fn_def raising_handler_def)

theorem withErrorHandler_outcomes_witness:
  "failing_fn 4 [] = (Inr 25, []) \<and>
   withErrorHandler failing_fn (Some recording_handler) 4 [] = (Inr (Some 25), []) \<and>
   failing_fn 0 [] = (Inl ''division by zero'', []) \<and>
   withErrorHandler failing_fn None 0 [] = (Inr None, []) \<and>
   recording_handler ''division by zero'' [] = (Inr (), [''division by zero'']) \<and>
   withErrorHandler failing_fn (Some recording_handler) 0 [] =
     (Inr None, [''division by zero'']) \<and>
   raising_handler ''division by zero'' [] = (Inl ''handler failed'', []) \<and>
   withErrorHandler failing_fn (Some raising_handler) 0 [] = (Inl ''handler failed'', []) \<and>
   (\<exists>error s' handler. failing_fn 0 [] = (Inl error, s') \<and>
      Some raising_handler = Some handler \<and> handler error s' = (Inl ''handler failed'', []))"
proof -
  have f4: "failing_fn 4 [] = (Inr 25, [])"
    by (simp add: failing_fn_def)
  have f0: "failing_fn 0 [] = (Inl ''division by zero'', [])"
    by (simp add: failing_fn_def)
  have r: "recording_handler ''division by zero'' [] = (Inr (), [''division by zero''])"
    by (simp add: recording_handler_def)
  have x: "raising_handler ''division by zero'' [] = (Inl ''handler failed'', [])"
    by (simp add: raising_handler_def)
  note t = withErrorHandler_outcomes
  have t1: "withErrorHandler failing_fn (Some recording_handler) 4 [] = (Inr (Some 25), [])"
    using t [of failing_fn 4 "[]" 25 "[]" "Some recording_handler"] f4 by simp
  have t2: "withErrorHandler failing_fn None 0 [] = (Inr None, [])"
    using t [of failing_fn 0 "[]" _ _ None "''division by zero''"] f0 by simp
  have t3: "withErrorHandler failing_fn (Some recording_handler) 0 [] =
      (Inr None, [''division by zero''])"
    using t [of failing_fn 0 "[]" _ "[]" "Some recording_handler" "''division by zero''"
        recording_handler "()" "[''division by zero'']"] f0 r by simp
  have t4: "withErrorHandler failing_fn (Some raising_handler) 0 [] = (Inl ''handler failed'', [])"
    using t [of failing_fn 0 "[]" _ "[]" "Some raising_handler" "''division by zero''"
        raising_handler _ "[]" "''handler failed''"] f0 x by simp
  have t5: "\<exists>error s' handler. failing_fn 0 [] = (Inl error, s') \<and>
      Some raising_handler = Some handler \<and> handler error s' = (Inl ''handler failed'', [])"
    using t [of failing_fn 0 "[]" _ _ "Some raising_handler" _ _ _ "[]" "''handler failed''"] t4
    by simp
  show ?thesis
    using f4 f0 r x t1 t2 t3 t4 t5 by simp
qed

subsection \<open>Header lists\<close>

lemma ascii_lower_idem: "ascii_lower (ascii_lower c) = ascii_lower c"
  by (simp add: ascii_lower_def)

lemma toLowerCase_idem: "toLowerCase (toLowerCase s) = toLowerCase s"
  by (simp add: toLowerCase_def ascii_lower_idem)

lemma same_name_lower: "same_name (toLowerCase a) b = same_name a b"
  by (simp add: same_name_def toLowerCase_idem)

lemma same_name_lower_eq: "same_name (toLowerCase a) b \<longleftrightarrow> toLowerCase a = toLowerCase b"
  by (simp add: same_name_def toLowerCase_idem)

lemma lower_set_cookie: "toLowerCase ''set-cookie'' = ''set-cookie''"
  by (simp add: toLowerCase_def ascii_lower_def)

lemma join_single: "join sep [x] = x"
  by simp

lemma fold_append: "fold (\<lambda>(k, v) h. Headers_append h k v) xs acc = acc @ xs"
  by (induction xs arbitrary: acc) (auto simp: Headers_append_def)

lemma Headers_new_pairs: "Headers_new (Some (Init_pairs ps)) = ps"
  and Headers_new_record: "Headers_new (Some (Init_record r)) = r"
  and Headers_new_headers: "Headers_new (Some (Init_headers h)) = Headers_entries h"
  and Headers_new_None: "Headers_new None = []"
  by (simp_all add: Headers_new_def fold_append)

lemma header_values_append:
  "header_values (xs @ ys) name = header_values xs name @ header_values ys name"
  by (simp add: header_values_def)

lemma header_values_concat:
  "header_values (concat xss) name = concat (map (\<lambda>xs. header_values xs name) xss)"
  by (induction xss) (simp_all add: header_values_append, simp add: header_values_def)

lemma concat_single:
  "distinct xs \<Longrightarrow> (\<And>m. m \<in> set xs \<Longrightarrow> m \<noteq> n \<Longrightarrow> g m = []) \<Longrightarrow>
   concat (map g xs) = (if n \<in> set xs then g n else [])"
  by (induction xs) auto

lemma header_values_empty_iff:
  "header_values h name = [] \<longleftrightarrow> toLowerCase name \<notin> set (map (toLowerCase \<circ> fst) h)"
  by (auto simp: header_values_def same_name_def filter_empty_conv image_iff)

lemma header_values_lower: "header_values h (toLowerCase name) = header_values h name"
  by (simp add: header_values_def same_name_def toLowerCase_idem)

lemma header_values_entries:
  "header_values (Headers_entries h) name =
     (if header_values h name = [] then []
      else if toLowerCase name = ''set-cookie'' then header_values h name
      else [join '', '' (header_values h name)])"
proof -
  let ?n = "toLowerCase name"
  let ?names = "sort (remdups (map (toLowerCase \<circ> fst) h))"
  let ?f = "\<lambda>m. if m = ''set-cookie'' then map (Pair m) (header_values h m)
                  else [(m, join '', '' (header_values h m))]"
  let ?g = "\<lambda>m. header_values (?f m) name"
  have d: "distinct ?names"
    by simp
  have z: "?g m = []" if "m \<in> set ?names" "m \<noteq> ?n" for m
  proof -
    from that(1) obtain e where "m = toLowerCase (fst e)"
      by auto
    with that(2) have "\<not> same_name m name"
      by (simp add: same_name_def toLowerCase_idem)
    then show ?thesis
      by (auto simp: header_values_def filter_map o_def)
  qed
  have gn: "?g ?n = (if ?n = ''set-cookie'' then header_values h name
                     else [join '', '' (header_values h name)])"
    by (simp add: header_values_def same_name_def toLowerCase_idem filter_map o_def
        lower_set_cookie)
  have "header_values (Headers_entries h) name = concat (map ?g ?names)"
    by (simp add: Headers_entries_def header_values_concat o_def)
  also have "\<dots> = (if ?n \<in> set ?names then ?g ?n else [])"
    using d z by (rule concat_single)
  finally show ?thesis
    using gn by (simp add: header_values_empty_iff)
qed

lemma Headers_get_entries: "Headers_get (Headers_entries h) name = Headers_get h name"
  by (simp add: Headers_get_def header_values_entries)

lemma Headers_has_entries: "Headers_has (Headers_entries h) name = Headers_has h name"
  by (simp add: Headers_has_def header_values_entries)



lemma Headers_set_absent:
  "\<not> Headers_has h name \<Longrightarrow> Headers_set h name v = h @ [(name, v)]"
  by (simp add: Headers_set_def Headers_append_def)

subsection \<open>The forwarded request\<close>

lemma name_literals:
  "same_name ''cookie'' ''cookie''"
  "same_name ''authorization'' ''authorization''"
  "\<not> same_name ''cookie'' ''authorization''"
  "\<not> same_name ''authorization'' ''cookie''"
  by (simp_all add: same_name_def toLowerCase_def ascii_lower_def)


lemma header_values_Nil: "header_values [] name = []"
  by (simp add: header_values_def)

lemma header_values_Cons:
  "header_values ((k, v) # h) name =
     (if same_name k name then v # header_values h name else header_values h name)"
  by (simp add: header_values_def)



lemma Headers_has_Nil: "\<not> Headers_has [] name"
  by (simp add: Headers_has_def header_values_Nil)







subsection \<open>The route handlers\<close>

lemma init_fault_None:
  "200 \<le> st \<Longrightarrow> st \<le> 599 \<Longrightarrow> (null_body_status st \<longrightarrow> \<not> has_body) \<Longrightarrow>
   init_fault st has_body = None"
  by (auto simp: init_fault_def)





text \<open>
  Handler A. A body that parses is relayed at the upstream status, and a failure of
  \<^verbatim>\<open>fetch\<close> is answered with the 500 payload.
\<close>

lemma day_summary_relays_json:
  assumes "fetch (upstream_call origin ''/api/admin/day-summary'' inbound) = Inr res"
    and "fst (Response_json parse res) = Inr data"
    and "200 \<le> res_status res" and "res_status res \<le> 599"
    and "\<not> null_body_status (res_status res)"
  shows "GET_day_summary ft parse fetch origin inbound =
     \<lparr>out_status = res_status res,
      out_headers = [(''content-type'', ''application/json'')],
      out_body = Json_body data\<rparr>"
proof -
  have "init_fault (res_status res) True = None"
    using assms(3-5) by (intro init_fault_None) auto
  then show ?thesis
    using assms(1,2)
    by (cases "Response_json parse res")
       (simp add: GET_day_summary_def day_summary_try_def NextResponse_json_def raise_fault_def)
qed

lemma day_summary_transport_failure:
  assumes "fetch (upstream_call origin ''/api/admin/day-summary'' inbound) = Inl error"
  shows "GET_day_summary ft parse fetch origin inbound = internal_server_error ft error"
  using assms by (simp add: GET_day_summary_def day_summary_try_def)

text \<open>
  A body that does not parse has been read by \<^verbatim>\<open>res.json()\<close>, so the \<^verbatim>\<open>res.text()\<close> in
  the inner \<^verbatim>\<open>catch\<close> finds it used and raises; the outer \<^verbatim>\<open>catch\<close> answers 500. A
  response without a body has a null-body status, which the fallback payload cannot be
  sent with. So the handler never answers with the payload
  \<^verbatim>\<open>{error: "Failed to parse response", details}\<close>.
\<close>

lemma day_summary_unparsable_body:
  assumes "fetch (upstream_call origin ''/api/admin/day-summary'' inbound) = Inr res"
    and "fst (Response_json parse res) = Inl f"
    and "\<not> res_bodyUsed res"
    and "res_body res = None \<longrightarrow> null_body_status (res_status res)"
  shows "\<exists>g. GET_day_summary ft parse fetch origin inbound =
     internal_server_error ft (Thrown_fault g)"
proof (cases "res_body res")
  case None
  with assms(4) have "init_fault (res_status res) True \<noteq> None"
    by (simp add: init_fault_def)
  then obtain g where g: "init_fault (res_status res) True = Some g"
    by blast
  from None assms(2) have "Response_json parse res = (Inl f, res)"
    by (simp add: Response_json_def Response_text_def split: option.splits)
  with None g assms(1) have "GET_day_summary ft parse fetch origin inbound =
      internal_server_error ft (Thrown_fault g)"
    by (simp add: GET_day_summary_def day_summary_try_def Response_text_def
        NextResponse_json_def raise_fault_def)
  then show ?thesis
    by blast
next
  case (Some b)
  with assms(2,3) have "Response_json parse res = (Inl f, res\<lparr>res_bodyUsed := True\<rparr>)"
    by (cases b) (simp_all add: Response_json_def Response_text_def split: option.splits)
  with Some assms(1) have "GET_day_summary ft parse fetch origin inbound =
      internal_server_error ft (Thrown_fault Body_unusable)"
    by (simp add: GET_day_summary_def day_summary_try_def Response_text_def)
  then show ?thesis
    by blast
qed

text \<open>
  Claim C4 says that Handler A answers an upstream body that is not JSON with the payload
  \<^verbatim>\<open>{error: "Failed to parse response", details}\<close> at the upstream status. At an upstream
  answer of 502 with an HTML error page the code answers 500 with the internal-error
  payload instead, whose message is the engine's text for a body that is already used.
\<close>

theorem day_summary_error_page:
  "GET_day_summary ft no_json error_page_upstream ''http://127.0.0.1:8000'' browser_request =
     \<lparr>out_status = 500,
      out_headers = [(''content-type'', ''application/json'')],
      out_body = Json_body (JObject [(''error'', JString ''Internal server error''),
                                     (''message'', JString (ft Body_unusable))])\<rparr>"
  by (simp add: GET_day_summary_def day_summary_try_def error_page_upstream_def
      error_page_response_def Response_json_def Response_text_def no_json_def
      internal_server_error_def error_message_def)

subsection \<open>api.ts\<close>

lemma map_of_assign_key:
  "map_of (assign_key k v out) k' =
     (if k = ''__proto__'' then map_of out k'
      else if k' = k then Some v else map_of out k')"
  by (simp add: assign_key_def update_conv')

lemma map_of_fold_assign:
  "map_of (fold (\<lambda>(k, v) out. assign_key k v out) xs out) k =
     (if k = ''__proto__'' then map_of out k
      else (case map_of (rev xs) k of
              None \<Rightarrow> map_of out k
            | Some v \<Rightarrow> Some v))"
proof (induction xs arbitrary: out)
  case Nil
  then show ?case by simp
next
  case (Cons x xs)
  obtain k' v' where x: "x = (k', v')"
    by (cases x)
  show ?case
    by (simp add: Cons.IH x map_of_assign_key map_add_def split: option.splits)
qed

lemma map_of_mergeHeaders:
  "k \<noteq> ''__proto__'' \<Longrightarrow>
   map_of (mergeHeaders a b) k =
     (case map_of (rev b) k of
        None \<Rightarrow> (case a of None \<Rightarrow> None | Some init \<Rightarrow> map_of (rev (init_entries init)) k)
      | Some v \<Rightarrow> Some v)"
  by (cases a) (auto simp: mergeHeaders_def map_of_fold_assign split: option.splits)

lemma headers_passed_request:
  "headers_passed (request_call API window path options) =
     mergeHeaders (init_headers options) (injected_headers (getToken window))"
  by (simp add: headers_passed_def request_call_def init_entries_def)

text \<open>
  Claim C3 says that the injected \<^verbatim>\<open>Content-Type\<close> overrides any value the caller
  declared for that header. A caller who declares \<^verbatim>\<open>Content-Type: text/plain\<close> in a
  \<^verbatim>\<open>Headers\<close> object keeps that value: the object reports its names in lower case,
  \<^verbatim>\<open>request\<close> passes \<^verbatim>\<open>fetch\<close> a record with both keys, and the request carries
  \<^verbatim>\<open>text/plain, application/json\<close>. The same declaration in a plain record spelled
  \<^verbatim>\<open>Content-Type\<close> is overridden.
\<close>

theorem request_keeps_declared_content_type:
  "request fetch ''http://localhost:8000'' token_storage ''/api/tables'' text_options =
     fetch \<lparr>call_url = ''http://localhost:8000/api/tables'',
            call_init =
              \<lparr>init_method = Some ''POST'',
               init_headers =
                 Some (Init_record [(''content-type'', ''text/plain''),
                                    (''Content-Type'', ''application/json''),
                                    (''Authorization'', ''Bearer abc'')]),
               init_cache = Some ''no-store'',
               init_credentials = None\<rparr>\<rparr>
   \<and> Headers_get
       (Headers_new
          (Some (Init_record [(''content-type'', ''text/plain''),
                              (''Content-Type'', ''application/json''),
                              (''Authorization'', ''Bearer abc'')])))
       ''Content-Type'' = Some ''text/plain, application/json''
   \<and> request fetch ''http://localhost:8000'' token_storage ''/api/tables'' record_options =
     fetch \<lparr>call_url = ''http://localhost:8000/api/tables'',
            call_init =
              \<lparr>init_method = Some ''POST'',
               init_headers =
                 Some (Init_record [(''Content-Type'', ''application/json''),
                                    (''Authorization'', ''Bearer abc'')]),
               init_cache = Some ''no-store'',
               init_credentials = None\<rparr>\<rparr>"
proof -
  have c1: "request_call ''http://localhost:8000'' token_storage ''/api/tables'' text_options =
     \<lparr>call_url = ''http://localhost:8000/api/tables'',
      call_init =
        \<lparr>init_method = Some ''POST'',
         init_headers =
           Some (Init_record [(''content-type'', ''text/plain''),
                              (''Content-Type'', ''application/json''),
                              (''Authorization'', ''Bearer abc'')]),
         init_cache = Some ''no-store'',
         init_credentials = None\<rparr>\<rparr>"
    by code_simp
  have c2: "Headers_get
       (Headers_new
          (Some (Init_record [(''content-type'', ''text/plain''),
                              (''Content-Type'', ''application/json''),
                              (''Authorization'', ''Bearer abc'')])))
       ''Content-Type'' = Some ''text/plain, application/json''"
    by code_simp
  have c3: "request_call ''http://localhost:8000'' token_storage ''/api/tables'' record_options =
     \<lparr>call_url = ''http://localhost:8000/api/tables'',
      call_init =
        \<lparr>init_method = Some ''POST'',
         init_headers =
           Some (Init_record [(''Content-Type'', ''application/json''),
                              (''Authorization'', ''Bearer abc'')]),
         init_cache = Some ''no-store'',
         init_credentials = None\<rparr>\<rparr>"
    by code_simp
  show ?thesis
    using c1 c2 c3 by (simp add: request_def)
qed

lemma keys_assign_key: "fst ` set (assign_key k v out) \<subseteq> insert k (fst ` set out)"
  by (auto simp: assign_key_def dom_update)

lemma distinct_assign_key:
  "distinct (map fst out) \<Longrightarrow> distinct (map fst (assign_key k v out))"
  by (simp add: assign_key_def distinct_update)

lemma fold_assign_keys:
  "fst ` set (fold (\<lambda>(k, v) out. assign_key k v out) xs out) \<subseteq> fst ` set xs \<union> fst ` set out"
proof (induction xs arbitrary: out)
  case Nil
  then show ?case by simp
next
  case (Cons x xs)
  obtain k v where x: "x = (k, v)"
    by (cases x)
  have "fst ` set (fold (\<lambda>(k, v) out. assign_key k v out) xs (assign_key k v out))
      \<subseteq> fst ` set xs \<union> fst ` set (assign_key k v out)"
    by (rule Cons.IH)
  also have "\<dots> \<subseteq> fst ` set xs \<union> insert k (fst ` set out)"
    using keys_assign_key [of k v out] by blast
  finally show ?case
    by (auto simp: x)
qed

lemma fold_assign_distinct:
  "distinct (map fst out) \<Longrightarrow>
   distinct (map fst (fold (\<lambda>(k, v) out. assign_key k v out) xs out))"
  by (induction xs arbitrary: out) (auto simp: distinct_assign_key)

lemma init_entries_Headers_new: "init_entries init = Headers_new (Some init)"
  by (cases init)
     (simp_all add: init_entries_def Headers_new_pairs Headers_new_record Headers_new_headers)

lemma mergeHeaders_keys:
  "fst ` set (mergeHeaders a b) \<subseteq> fst ` set (Headers_new a) \<union> fst ` set b"
proof (cases a)
  case None
  then show ?thesis
    using fold_assign_keys [of b "[]"] by (simp add: mergeHeaders_def Headers_new_None)
next
  case (Some init)
  have "fst ` set (mergeHeaders a b) \<subseteq>
      fst ` set b \<union> fst ` set (fold (\<lambda>(k, v) out. assign_key k v out) (init_entries init) [])"
    using Some fold_assign_keys by (simp add: mergeHeaders_def)
  moreover have "fst ` set (fold (\<lambda>(k, v) out. assign_key k v out) (init_entries init) [])
      \<subseteq> fst ` set (init_entries init)"
    using fold_assign_keys [of "init_entries init" "[]"] by simp
  ultimately show ?thesis
    using Some by (auto simp: init_entries_Headers_new)
qed

lemma mergeHeaders_distinct: "distinct (map fst (mergeHeaders a b))"
  by (cases a) (simp_all add: mergeHeaders_def fold_assign_distinct)

lemma Headers_has_iff: "Headers_has h name \<longleftrightarrow> (\<exists>k \<in> fst ` set h. same_name k name)"
  by (auto simp: Headers_has_def header_values_def filter_empty_conv)

lemma header_values_unique:
  "distinct (map fst r) \<Longrightarrow> map_of r K = Some v \<Longrightarrow> same_name K name \<Longrightarrow>
   (\<And>k. k \<in> fst ` set r \<Longrightarrow> same_name k name \<Longrightarrow> k = K) \<Longrightarrow>
   header_values r name = [v]"
proof (induction r)
  case Nil
  then show ?case by simp
next
  case (Cons e r)
  obtain k0 v0 where e: "e = (k0, v0)"
    by (cases e)
  show ?case
  proof (cases "k0 = K")
    case True
    with Cons.prems(1) e have "K \<notin> fst ` set r"
      by auto
    with Cons.prems(4) have "\<not> Headers_has r name"
      by (auto simp: Headers_has_iff)
    with True e Cons.prems(2,3) show ?thesis
      by (simp add: header_values_Cons Headers_has_def)
  next
    case False
    with Cons.prems(4) [of k0] e have "\<not> same_name k0 name"
      by auto
    moreover have "header_values r name = [v]"
      using Cons.prems False e by (intro Cons.IH) auto
    ultimately show ?thesis
      by (simp add: e header_values_Cons)
  qed
qed

lemma authorization_literals:
  "same_name ''Authorization'' ''Authorization''"
  "\<not> same_name ''Content-Type'' ''Authorization''"
  by (simp_all add: same_name_def toLowerCase_def ascii_lower_def)

lemma headers_sent_request:
  "headers_sent (request_call API window path options) =
     mergeHeaders (init_headers options) (injected_headers (getToken window))"
  by (simp add: headers_sent_def request_call_def Headers_new_record)

lemma request_sends_bearer:
  assumes "getToken window = Some t" and "t \<noteq> []"
    and "\<not> Headers_has (Headers_new (init_headers options)) ''Authorization''"
  shows "Headers_get (headers_sent (request_call API window path options)) ''Authorization'' =
     Some (''Bearer '' @ t)"
proof -
  let ?b = "injected_headers (Some t)"
  let ?m = "mergeHeaders (init_headers options) ?b"
  have b: "?b = [(''Content-Type'', ''application/json''), (''Authorization'', ''Bearer '' @ t)]"
    using assms(2) by (simp add: injected_headers_def)
  have m: "map_of ?m ''Authorization'' = Some (''Bearer '' @ t)"
    by (simp add: map_of_mergeHeaders b)
  have u: "k = ''Authorization''" if "k \<in> fst ` set ?m" "same_name k ''Authorization''" for k
  proof -
    from that(1) mergeHeaders_keys [of "init_headers options" ?b]
    have "k \<in> fst ` set (Headers_new (init_headers options)) \<or>
        k = ''Content-Type'' \<or> k = ''Authorization''"
      by (auto simp: b)
    with that(2) assms(3) show ?thesis
      by (auto simp: Headers_has_iff authorization_literals)
  qed
  have "header_values ?m ''Authorization'' = [''Bearer '' @ t]"
    using mergeHeaders_distinct m authorization_literals(1) u by (rule header_values_unique)
  then show ?thesis
    by (simp add: headers_sent_request assms(1) Headers_get_def)
qed

lemma request_sends_no_bearer:
  assumes "getToken window = None"
    and "\<not> Headers_has (Headers_new (init_headers options)) ''Authorization''"
  shows "\<not> Headers_has (headers_sent (request_call API window path options)) ''Authorization''"
proof
  let ?b = "injected_headers None"
  assume "Headers_has (headers_sent (request_call API window path options)) ''Authorization''"
  then obtain k where k: "k \<in> fst ` set (mergeHeaders (init_headers options) ?b)"
      "same_name k ''Authorization''"
    by (auto simp: headers_sent_request assms(1) Headers_has_iff)
  from k(1) mergeHeaders_keys [of "init_headers options" ?b]
  have "k \<in> fst ` set (Headers_new (init_headers options)) \<or> k = ''Content-Type''"
    by (auto simp: injected_headers_def)
  with k(2) assms(2) show False
    by (auto simp: Headers_has_iff authorization_literals)
qed

lemma request_without_token:
  assumes "getToken window = None" and "init_headers options = None"
  shows "headers_passed (request_call API window path options) =
     [(''Content-Type'', ''application/json'')]"
  using assms
  by (simp add: headers_passed_request mergeHeaders_def injected_headers_def assign_key_def)

text \<open>
  Claim C8. \<^verbatim>\<open>request\<close> hands \<^verbatim>\<open>fetch\<close> one call and returns what \<^verbatim>\<open>fetch\<close> returns. With
  the token \<^verbatim>\<open>abc\<close> stored, the record of headers in that call has
  \<^verbatim>\<open>Authorization: Bearer abc\<close>, and when the caller supplies no Authorization header
  that is the value the request carries under that name. With no token stored, a call
  without caller headers passes the \<^verbatim>\<open>Content-Type\<close> entry alone, and a request whose
  caller supplies no Authorization header in any spelling carries none.
\<close>

theorem request_bearer_header:
  "request fetch API window path options = fetch (request_call API window path options)
   \<and> (window = Some localStorage \<and> localStorage TOKEN_KEY = Some ''abc'' \<longrightarrow>
      map_of (headers_passed (request_call API window path options)) ''Authorization'' =
        Some ''Bearer abc'')
   \<and> (window = Some localStorage \<and> localStorage TOKEN_KEY = Some ''abc'' \<and>
      \<not> Headers_has (Headers_new (init_headers options)) ''Authorization'' \<longrightarrow>
        Headers_get (headers_sent (request_call API window path options)) ''Authorization'' =
          Some ''Bearer abc'')
   \<and> (getToken window = None \<and> init_headers options = None \<longrightarrow>
        headers_passed (request_call API window path options) =
          [(''Content-Type'', ''application/json'')])
   \<and> (getToken window = None \<and>
      \<not> Headers_has (Headers_new (init_headers options)) ''Authorization'' \<longrightarrow>
        \<not> Headers_has (headers_sent (request_call API window path options))
            ''Authorization'')"
proof (intro conjI impI)
  show "request fetch API window path options = fetch (request_call API window path options)"
    by (simp add: request_def)
next
  assume a: "window = Some localStorage \<and> localStorage TOKEN_KEY = Some ''abc''"
  then have "getToken window = Some ''abc''"
    by (simp add: getToken_def)
  then show "map_of (headers_passed (request_call API window path options)) ''Authorization'' =
      Some ''Bearer abc''"
    by (simp add: headers_passed_request map_of_mergeHeaders injected_headers_def)
next
  assume a: "window = Some localStorage \<and> localStorage TOKEN_KEY = Some ''abc'' \<and>
      \<not> Headers_has (Headers_new (init_headers options)) ''Authorization''"
  then have "getToken window = Some ''abc''"
    by (simp add: getToken_def)
  with a show "Headers_get (headers_sent (request_call API window path options))
      ''Authorization'' = Some ''Bearer abc''"
    using request_sends_bearer [of window "''abc''" options API path] by simp
next
  assume "getToken window = None \<and> init_headers options = None"
  then show "headers_passed (request_call API window path options) =
      [(''Content-Type'', ''application/json'')]"
    by (simp add: request_without_token)
next
  assume "getToken window = None \<and>
      \<not> Headers_has (Headers_new (init_headers options)) ''Authorization''"
  then show "\<not> Headers_has (headers_sent (request_call API window path options))
      ''Authorization''"
    by (simp add: request_sends_no_bearer)
qed

theorem request_bearer_header_witness:
  "request succeeding_fetch ''http://localhost:8000'' token_storage ''/api/tables'' no_options =
     succeeding_fetch
       (request_call ''http://localhost:8000'' token_storage ''/api/tables'' no_options) \<and>
   (token_storage = Some (Map.empty(TOKEN_KEY \<mapsto> ''abc'')) \<and>
    (Map.empty(TOKEN_KEY \<mapsto> ''abc'')) TOKEN_KEY = Some ''abc'' \<and>
    \<not> Headers_has (Headers_new (init_headers no_options)) ''Authorization'') \<and>
   Headers_get (headers_sent (request_call ''http://localhost:8000'' token_storage
     ''/api/tables'' no_options)) ''Authorization'' = Some ''Bearer abc'' \<and>
   map_of (headers_passed (request_call ''http://localhost:8000'' token_storage
     ''/api/tables'' no_options)) ''Authorization'' = Some ''Bearer abc'' \<and>
   (getToken (Some Map.empty) = None \<and> init_headers no_options = None) \<and>
   \<not> Headers_has (headers_sent (request_call ''http://localhost:8000'' (Some Map.empty)
     ''/api/tables'' no_options)) ''Authorization'' \<and>
   headers_passed (request_call ''http://localhost:8000'' (Some Map.empty)
     ''/api/tables'' no_options) = [(''Content-Type'', ''application/json'')]"
proof -
  have h: "token_storage = Some (Map.empty(TOKEN_KEY \<mapsto> ''abc'')) \<and>
    (Map.empty(TOKEN_KEY \<mapsto> ''abc'')) TOKEN_KEY = Some ''abc'' \<and>
    \<not> Headers_has (Headers_new (init_headers no_options)) ''Authorization''"
    by (simp add: token_storage_def no_options_def Headers_new_None Headers_has_Nil)
  then have h1: "token_storage = Some (Map.empty(TOKEN_KEY \<mapsto> ''abc'')) \<and>
    (Map.empty(TOKEN_KEY \<mapsto> ''abc'')) TOKEN_KEY = Some ''abc''"
    by simp
  have g: "getToken (Some Map.empty) = None \<and> init_headers no_options = None"
    by (simp add: getToken_def no_options_def)
  have g2: "getToken (Some Map.empty) = None \<and>
      \<not> Headers_has (Headers_new (init_headers no_options)) ''Authorization''"
    using h g by simp
  note t0 = request_bearer_header
    [where fetch = succeeding_fetch, where window = token_storage,
     where options = no_options, where API = "''http://localhost:8000''",
     where path = "''/api/tables''", THEN conjunct1]
  note t1 = request_bearer_header
    [where window = token_storage, where localStorage = "Map.empty(TOKEN_KEY \<mapsto> ''abc'')",
     where options = no_options, where API = "''http://localhost:8000''",
     where path = "''/api/tables''", THEN conjunct2, THEN conjunct1, rule_format, OF h1]
  note t2 = request_bearer_header
    [where window = token_storage, where localStorage = "Map.empty(TOKEN_KEY \<mapsto> ''abc'')",
     where options = no_options, where API = "''http://localhost:8000''",
     where path = "''/api/tables''", THEN conjunct2, THEN conjunct2, THEN conjunct1,
     rule_format, OF h]
  note t3 = request_bearer_header
    [where window = "Some Map.empty", where options = no_options,
     where API = "''http://localhost:8000''", where path = "''/api/tables''",
     THEN conjunct2, THEN conjunct2, THEN conjunct2, THEN conjunct1, rule_format, OF g]
  note t4 = request_bearer_header
    [where window = "Some Map.empty", where options = no_options,
     where API = "''http://localhost:8000''", where path = "''/api/tables''",
     THEN conjunct2, THEN conjunct2, THEN conjunct2, THEN conjunct2, rule_format, OF g2]
  show ?thesis
    using h g t0 t1 t2 t3 t4 by simp
qed

lemma headers_sent_apiFetch:
  "Headers_get (headers_sent (apiFetch_call API window path init)) name =
     Headers_get
       (case getToken window of
          None \<Rightarrow> Headers_new (init_headers init)
        | Some t \<Rightarrow>
            if t \<noteq> [] \<and> \<not> Headers_has (Headers_new (init_headers init)) ''authorization''
            then Headers_set (Headers_new (init_headers init)) ''authorization'' (''Bearer '' @ t)
            else Headers_new (init_headers init)) name"
  by (simp add: headers_sent_def apiFetch_call_def Headers_new_headers Headers_get_entries
      Let_def)

lemma Headers_get_set_absent:
  "\<not> Headers_has h name \<Longrightarrow>
   Headers_get (Headers_set h name v) name' =
     (if same_name name name' then Some v else Headers_get h name')"
proof -
  assume a: "\<not> Headers_has h name"
  have "header_values h name' = []" if "same_name name name'"
    using a that by (auto simp: Headers_has_def header_values_def same_name_def filter_empty_conv)
  then show ?thesis
    using a by (simp add: Headers_set_absent Headers_get_def header_values_append
        header_values_Cons header_values_Nil)
qed

lemma Headers_get_absent: "\<not> Headers_has h name \<Longrightarrow> Headers_get h name = None"
  by (simp add: Headers_has_def Headers_get_def)

text \<open>
  Claim C7, as the code has it. The request \<^verbatim>\<open>apiFetch\<close> issues carries, under the name
  \<open>authorization\<close>, the caller's own value when the caller's headers have that name in
  any spelling, and otherwise the bearer value of a stored non-empty token (and nothing
  when there is none); every other name reads as the caller gave it. The request is
  issued with credentials \<^verbatim>\<open>omit\<close>. On a status outside 200 to 299 the call raises the
  \<^verbatim>\<open>ApiError\<close> that \<^verbatim>\<open>ApiError.fromResponse\<close> builds from the response, or, where
  building it raises, the fault raised there; on a status inside it returns the response
  as it came, its body unread; and what \<^verbatim>\<open>fetch\<close> rejects with passes through.
\<close>

theorem apiFetch_behaviour:
  "Headers_get (headers_sent (apiFetch_call API window path init)) ''authorization'' =
     (if Headers_has (Headers_new (init_headers init)) ''authorization''
      then Headers_get (Headers_new (init_headers init)) ''authorization''
      else (case getToken window of
              None \<Rightarrow> None
            | Some t \<Rightarrow> if t = [] then None else Some (''Bearer '' @ t)))
   \<and> (\<not> same_name ''authorization'' name \<longrightarrow>
        Headers_get (headers_sent (apiFetch_call API window path init)) name =
        Headers_get (Headers_new (init_headers init)) name)
   \<and> init_credentials (call_init (apiFetch_call API window path init)) = Some ''omit''
   \<and> call_url (apiFetch_call API window path init) = API @ path
   \<and> (fetch (apiFetch_call API window path init) = Inr res \<and> \<not> res_ok res \<and>
      fromResponse parse res = Inr e \<longrightarrow>
        apiFetch parse fetch API window path init = Inl (Thrown_ApiError e))
   \<and> (fetch (apiFetch_call API window path init) = Inr res \<and> \<not> res_ok res \<and>
      fromResponse parse res = Inl f \<longrightarrow>
        apiFetch parse fetch API window path init = Inl (Thrown_fault f))
   \<and> (fetch (apiFetch_call API window path init) = Inr res \<and> res_ok res \<longrightarrow>
        apiFetch parse fetch API window path init = Inr res)
   \<and> (fetch (apiFetch_call API window path init) = Inl error \<longrightarrow>
        apiFetch parse fetch API window path init = Inl error)"
proof (intro conjI impI)
  show "Headers_get (headers_sent (apiFetch_call API window path init)) ''authorization'' =
     (if Headers_has (Headers_new (init_headers init)) ''authorization''
      then Headers_get (Headers_new (init_headers init)) ''authorization''
      else (case getToken window of
              None \<Rightarrow> None
            | Some t \<Rightarrow> if t = [] then None else Some (''Bearer '' @ t)))"
    by (cases "getToken window")
       (simp_all add: headers_sent_apiFetch Headers_get_set_absent Headers_get_absent
          name_literals)
next
  assume "\<not> same_name ''authorization'' name"
  then show "Headers_get (headers_sent (apiFetch_call API window path init)) name =
      Headers_get (Headers_new (init_headers init)) name"
    by (cases "getToken window")
       (simp_all add: headers_sent_apiFetch Headers_get_set_absent)
next
  show "init_credentials (call_init (apiFetch_call API window path init)) = Some ''omit''"
    by (simp add: apiFetch_call_def Let_def)
  show "call_url (apiFetch_call API window path init) = API @ path"
    by (simp add: apiFetch_call_def Let_def)
next
  assume "fetch (apiFetch_call API window path init) = Inr res \<and> \<not> res_ok res \<and>
      fromResponse parse res = Inr e"
  then show "apiFetch parse fetch API window path init = Inl (Thrown_ApiError e)"
    by (simp add: apiFetch_def)
next
  assume "fetch (apiFetch_call API window path init) = Inr res \<and> \<not> res_ok res \<and>
      fromResponse parse res = Inl f"
  then show "apiFetch parse fetch API window path init = Inl (Thrown_fault f)"
    by (simp add: apiFetch_def)
next
  assume "fetch (apiFetch_call API window path init) = Inr res \<and> res_ok res"
  then show "apiFetch parse fetch API window path init = Inr res"
    by (simp add: apiFetch_def)
next
  assume "fetch (apiFetch_call API window path init) = Inl error"
  then show "apiFetch parse fetch API window path init = Inl error"
    by (simp add: apiFetch_def)
qed

text \<open>
  A response of status 400 whose \<open>detail\<close> is an object with an own \<^verbatim>\<open>toString\<close> key:
  \<^verbatim>\<open>apiFetch\<close> raises a \<^verbatim>\<open>TypeError\<close> and no \<^verbatim>\<open>ApiError\<close>.
\<close>

theorem apiFetch_raises_counterexample:
  "shadowing_fetch
     (apiFetch_call ''http://localhost:8000'' token_storage ''/api/tables'' no_options) =
     Inr shadowing_response \<and>
   \<not> res_ok shadowing_response \<and>
   apiFetch shadowing_parse shadowing_fetch ''http://localhost:8000'' token_storage
     ''/api/tables'' no_options = Inl (Thrown_fault Cannot_convert_to_primitive)"
  by code_simp

theorem apiFetch_behaviour_witness:
  "Headers_get (headers_sent (apiFetch_call ''http://localhost:8000'' token_storage
     ''/api/tables'' own_auth_options)) ''authorization'' = Some ''Basic xyz'' \<and>
   Headers_get (headers_sent (apiFetch_call ''http://localhost:8000'' token_storage
     ''/api/tables'' no_options)) ''authorization'' = Some ''Bearer abc'' \<and>
   \<not> same_name ''authorization'' ''accept'' \<and>
   Headers_get (headers_sent (apiFetch_call ''http://localhost:8000'' token_storage
     ''/api/tables'' own_auth_options)) ''accept'' = Some ''*/*'' \<and>
   init_credentials (call_init (apiFetch_call ''http://localhost:8000'' token_storage
     ''/api/tables'' own_auth_options)) = Some ''omit'' \<and>
   (failing_fetch (apiFetch_call ''http://localhost:8000'' token_storage ''/api/tables''
      no_options) = Inr conflict_response \<and>
    \<not> res_ok conflict_response \<and>
    fromResponse conflict_parse conflict_response =
      Inr \<lparr>message = ''Table is closed'', status = 409, details = Some conflict_body\<rparr>) \<and>
   apiFetch conflict_parse failing_fetch ''http://localhost:8000'' token_storage ''/api/tables''
     no_options =
     Inl (Thrown_ApiError
       \<lparr>message = ''Table is closed'', status = 409, details = Some conflict_body\<rparr>) \<and>
   (succeeding_fetch (apiFetch_call ''http://localhost:8000'' token_storage ''/api/tables''
      no_options) = Inr export_response \<and> res_ok export_response) \<and>
   apiFetch conflict_parse succeeding_fetch ''http://localhost:8000'' token_storage
     ''/api/tables'' no_options = Inr export_response \<and>
   res_bodyUsed export_response = False \<and>
   (shadowing_fetch (apiFetch_call ''http://localhost:8000'' token_storage ''/api/tables''
      no_options) = Inr shadowing_response \<and>
    \<not> res_ok shadowing_response \<and>
    fromResponse shadowing_parse shadowing_response = Inl Cannot_convert_to_primitive) \<and>
   apiFetch shadowing_parse shadowing_fetch ''http://localhost:8000'' token_storage
     ''/api/tables'' no_options = Inl (Thrown_fault Cannot_convert_to_primitive) \<and>
   offline_fetch (apiFetch_call ''http://localhost:8000'' token_storage ''/api/tables''
     no_options) = Inl (Thrown_Error ''Failed to fetch'') \<and>
   apiFetch conflict_parse offline_fetch ''http://localhost:8000'' token_storage
     ''/api/tables'' no_options = Inl (Thrown_Error ''Failed to fetch'')"
proof -
  have v1: "(if Headers_has (Headers_new (init_headers own_auth_options)) ''authorization''
      then Headers_get (Headers_new (init_headers own_auth_options)) ''authorization''
      else (case getToken token_storage of
              None \<Rightarrow> None
            | Some t \<Rightarrow> if t = [] then None else Some (''Bearer '' @ t))) = Some ''Basic xyz''"
    by code_simp
  have v2: "(if Headers_has (Headers_new (init_headers no_options)) ''authorization''
      then Headers_get (Headers_new (init_headers no_options)) ''authorization''
      else (case getToken token_storage of
              None \<Rightarrow> None
            | Some t \<Rightarrow> if t = [] then None else Some (''Bearer '' @ t))) = Some ''Bearer abc''"
    by (simp add: no_options_def Headers_new_None Headers_has_Nil getToken_def
        token_storage_def)
  have h3: "\<not> same_name ''authorization'' ''accept''"
    by code_simp
  have v3: "Headers_get (Headers_new (init_headers own_auth_options)) ''accept'' = Some ''*/*''"
    by code_simp
  have h5: "failing_fetch (apiFetch_call ''http://localhost:8000'' token_storage ''/api/tables''
      no_options) = Inr conflict_response \<and>
    \<not> res_ok conflict_response \<and>
    fromResponse conflict_parse conflict_response =
      Inr \<lparr>message = ''Table is closed'', status = 409, details = Some conflict_body\<rparr>"
  proof -
    have "\<not> res_ok conflict_response"
      by (simp add: res_ok_def conflict_response_def)
    moreover have "fromResponse conflict_parse conflict_response =
      Inr \<lparr>message = ''Table is closed'', status = 409, details = Some conflict_body\<rparr>"
      by code_simp
    ultimately show ?thesis
      by (simp add: failing_fetch_def)
  qed
  have h7: "succeeding_fetch (apiFetch_call ''http://localhost:8000'' token_storage
      ''/api/tables'' no_options) = Inr export_response \<and> res_ok export_response"
    by (simp add: succeeding_fetch_def res_ok_def export_response_def)
  have u: "res_bodyUsed export_response = False"
    by (simp add: export_response_def)
  note t1 = apiFetch_behaviour
    [where window = token_storage, where init = own_auth_options,
     where API = "''http://localhost:8000''", where path = "''/api/tables''",
     THEN conjunct1]
  note t2 = apiFetch_behaviour
    [where window = token_storage, where init = no_options,
     where API = "''http://localhost:8000''", where path = "''/api/tables''",
     THEN conjunct1]
  note t3 = apiFetch_behaviour
    [where window = token_storage, where init = own_auth_options,
     where API = "''http://localhost:8000''", where path = "''/api/tables''",
     where name = "''accept''", THEN conjunct2, THEN conjunct1, rule_format, OF h3]
  note t4 = apiFetch_behaviour
    [where window = token_storage, where init = own_auth_options,
     where API = "''http://localhost:8000''", where path = "''/api/tables''",
     THEN conjunct2, THEN conjunct2, THEN conjunct1]
  note t5 = apiFetch_behaviour
    [where window = token_storage, where init = no_options,
     where API = "''http://localhost:8000''", where path = "''/api/tables''",
     where fetch = failing_fetch, where parse = conflict_parse,
     where res = conflict_response,
     THEN conjunct2, THEN conjunct2, THEN conjunct2, THEN conjunct2, THEN conjunct1,
     rule_format, OF h5]
  note t7 = apiFetch_behaviour
    [where window = token_storage, where init = no_options,
     where API = "''http://localhost:8000''", where path = "''/api/tables''",
     where fetch = succeeding_fetch, where parse = conflict_parse,
     where res = export_response,
     THEN conjunct2, THEN conjunct2, THEN conjunct2, THEN conjunct2, THEN conjunct2,
     THEN conjunct2, THEN conjunct1, rule_format, OF h7]
  have h6: "shadowing_fetch (apiFetch_call ''http://localhost:8000'' token_storage
      ''/api/tables'' no_options) = Inr shadowing_response \<and>
    \<not> res_ok shadowing_response \<and>
    fromResponse shadowing_parse shadowing_response = Inl Cannot_convert_to_primitive"
  proof -
    have "\<not> res_ok shadowing_response"
      by (simp add: res_ok_def shadowing_response_def)
    moreover have "fromResponse shadowing_parse shadowing_response =
        Inl Cannot_convert_to_primitive"
      by code_simp
    ultimately show ?thesis
      by (simp add: shadowing_fetch_def)
  qed
  have h8: "offline_fetch (apiFetch_call ''http://localhost:8000'' token_storage
      ''/api/tables'' no_options) = Inl (Thrown_Error ''Failed to fetch'')"
    by (simp add: offline_fetch_def)
  note t6 = apiFetch_behaviour
    [where window = token_storage, where init = no_options,
     where API = "''http://localhost:8000''", where path = "''/api/tables''",
     where fetch = shadowing_fetch, where parse = shadowing_parse,
     where res = shadowing_response,
     THEN conjunct2, THEN conjunct2, THEN conjunct2, THEN conjunct2, THEN conjunct2,
     THEN conjunct1, rule_format, OF h6]
  note t8 = apiFetch_behaviour
    [where window = token_storage, where init = no_options,
     where API = "''http://localhost:8000''", where path = "''/api/tables''",
     where fetch = offline_fetch, where parse = conflict_parse,
     THEN conjunct2, THEN conjunct2, THEN conjunct2, THEN conjunct2, THEN conjunct2,
     THEN conjunct2, THEN conjunct2, rule_format, OF h8]
  show ?thesis
    using v1 v2 h3 v3 h5 h7 u t1 t2 t3 t4 t5 t7 h6 h8 t6 t8 by simp
qed

end
